theory Spec2Isabelle
  imports Complex_Main
begin

section \<open>JavaScript values\<close>

text \<open>
  The program is a single JavaScript file, \<^verbatim>\<open>index.js\<close>. Its data are JavaScript values:
  the plans and actions it handles come out of \<^verbatim>\<open>JSON.parse\<close>, so a step can be any JSON value.

  A JavaScript number is a double: a finite value, one of the two infinities, or NaN. A finite
  value is held as the real number it is, and every operation that can leave the doubles
  rounds its result to the nearest one (\<open>fl\<close>, below). The sign of zero is not modelled. A
  string is a list of 8-bit characters, read as the UTF-16 code units below 256.
\<close>

datatype jsnum = Fin real | PosInf | NegInf | NaN

datatype jsval =
    JUndefined
  | JNull
  | JBool bool
  | JNum jsnum
  | JStr string
  | JArr "jsval list"
  | JObj "(string \<times> jsval) list"

text \<open>What a \<^verbatim>\<open>throw\<close> carries. \<open>Failure\<close> is an exception raised by the game collaborator.\<close>

datatype exn = TypeError | SyntaxError | Failure string

definition bindE :: "exn + 'a \<Rightarrow> ('a \<Rightarrow> exn + 'b) \<Rightarrow> exn + 'b" where
  "bindE m f = (case m of Inl e \<Rightarrow> Inl e | Inr x \<Rightarrow> f x)"

text \<open>\<^verbatim>\<open>try { body } catch { handler }\<close>\<close>

definition try_catch :: "exn + 'a \<Rightarrow> (exn \<Rightarrow> exn + 'a) \<Rightarrow> exn + 'a" where
  "try_catch body handler = (case body of Inl e \<Rightarrow> handler e | Inr x \<Rightarrow> Inr x)"

text \<open>ToBoolean: what \<^verbatim>\<open>if (v)\<close>, \<^verbatim>\<open>!v\<close>, \<^verbatim>\<open>&&\<close> and \<^verbatim>\<open>||\<close> test.\<close>

fun truthy :: "jsval \<Rightarrow> bool" where
  "truthy JUndefined = False"
| "truthy JNull = False"
| "truthy (JBool b) = b"
| "truthy (JNum (Fin x)) = (x \<noteq> 0)"
| "truthy (JNum NaN) = False"
| "truthy (JNum PosInf) = True"
| "truthy (JNum NegInf) = True"
| "truthy (JStr s) = (s \<noteq> [])"
| "truthy (JArr xs) = True"
| "truthy (JObj kvs) = True"

text \<open>\<^verbatim>\<open>typeof v === 'number'\<close> and \<^verbatim>\<open>typeof v === 'string'\<close>\<close>

fun typeof_number :: "jsval \<Rightarrow> bool" where
  "typeof_number (JNum n) = True"
| "typeof_number v = False"

fun typeof_string :: "jsval \<Rightarrow> bool" where
  "typeof_string (JStr s) = True"
| "typeof_string v = False"

text \<open>
  Property read \<^verbatim>\<open>v.k\<close>. On \<^verbatim>\<open>null\<close> and \<^verbatim>\<open>undefined\<close> it throws a TypeError. An object
  built by \<^verbatim>\<open>JSON.parse\<close> keeps one entry per key; the association list is read first match
  first. The keys the program reads (\<^verbatim>\<open>name\<close>, \<^verbatim>\<open>params\<close>, \<^verbatim>\<open>x\<close>, \<^verbatim>\<open>plan\<close>, ...) are not
  inherited properties of strings, numbers, booleans or arrays, whose only property modelled
  is \<^verbatim>\<open>length\<close>.
\<close>

fun get_prop :: "jsval \<Rightarrow> string \<Rightarrow> exn + jsval" where
  "get_prop JUndefined k = Inl TypeError"
| "get_prop JNull k = Inl TypeError"
| "get_prop (JObj kvs) k = Inr (case map_of kvs k of None \<Rightarrow> JUndefined | Some v \<Rightarrow> v)"
| "get_prop (JStr s) k = Inr (if k = ''length'' then JNum (Fin (real (length s))) else JUndefined)"
| "get_prop (JArr xs) k = Inr (if k = ''length'' then JNum (Fin (real (length xs))) else JUndefined)"
| "get_prop v k = Inr JUndefined"

text \<open>
  ToString, as \<^verbatim>\<open>String(v)\<close> and a template literal \<^verbatim>\<open>${v}\<close> apply it. How a number prints
  (\<^verbatim>\<open>Number.prototype.toString\<close>) is a parameter. An object prints as \<^verbatim>\<open>[object Object]\<close>
  through \<^verbatim>\<open>Object.prototype.toString\<close>, unless it has an own property \<^verbatim>\<open>toString\<close>: a value
  out of \<^verbatim>\<open>JSON.parse\<close> is never callable, and the conversion throws a TypeError. An array
  prints its elements joined by commas, \<^verbatim>\<open>null\<close> and \<^verbatim>\<open>undefined\<close> as the empty string.
\<close>

fun ToString :: "(jsnum \<Rightarrow> string) \<Rightarrow> jsval \<Rightarrow> exn + string"
  and join_elems :: "(jsnum \<Rightarrow> string) \<Rightarrow> jsval list \<Rightarrow> exn + string"
  and elem_string :: "(jsnum \<Rightarrow> string) \<Rightarrow> jsval \<Rightarrow> exn + string" where
  "ToString ns JUndefined = Inr ''undefined''"
| "ToString ns JNull = Inr ''null''"
| "ToString ns (JBool b) = Inr (if b then ''true'' else ''false'')"
| "ToString ns (JNum n) = Inr (ns n)"
| "ToString ns (JStr s) = Inr s"
| "ToString ns (JObj kvs) =
     (if map_of kvs ''toString'' \<noteq> None then Inl TypeError else Inr ''[object Object]'')"
| "ToString ns (JArr xs) = join_elems ns xs"
| "join_elems ns [] = Inr []"
| "join_elems ns [x] = elem_string ns x"
| "join_elems ns (x # y # ys) =
     bindE (elem_string ns x) (\<lambda>a. bindE (join_elems ns (y # ys)) (\<lambda>b. Inr (a @ '','' @ b)))"
| "elem_string ns JUndefined = Inr []"
| "elem_string ns JNull = Inr []"
| "elem_string ns (JBool b) = ToString ns (JBool b)"
| "elem_string ns (JNum n) = ToString ns (JNum n)"
| "elem_string ns (JStr s) = ToString ns (JStr s)"
| "elem_string ns (JArr xs) = ToString ns (JArr xs)"
| "elem_string ns (JObj kvs) = ToString ns (JObj kvs)"

text \<open>
  \<^verbatim>\<open>String.prototype.toLowerCase\<close> on the code units below 256: the capitals are the letters
  A to Z (codes 65 to 90) and the accented capitals from 192 to 222, the multiplication sign
  (215) apart; a capital gets bit 5 set, which adds 32.
\<close>

fun lower_char :: "char \<Rightarrow> char" where
  "lower_char (Char b0 b1 b2 b3 b4 b5 b6 b7) =
     (let n = (of_char (Char b0 b1 b2 b3 b4 b5 b6 b7) :: nat)
      in if (65 \<le> n \<and> n \<le> 90) \<or> (192 \<le> n \<and> n \<le> 222 \<and> n \<noteq> 215)
         then Char b0 b1 b2 b3 b4 True b6 b7
         else Char b0 b1 b2 b3 b4 b5 b6 b7)"

definition toLowerCase :: "string \<Rightarrow> string" where
  "toLowerCase s = map lower_char s"

definition startsWith :: "string \<Rightarrow> string \<Rightarrow> bool" where
  "startsWith s p = (take (length p) s = p)"

section \<open>Strings\<close>

text \<open>The first index at or after \<open>i\<close> where \<open>p\<close> occurs, scanning the rest \<open>s\<close> of the string.\<close>

fun index_from :: "string \<Rightarrow> string \<Rightarrow> nat \<Rightarrow> nat option" where
  "index_from p [] i = (if p = [] then Some i else None)"
| "index_from p (c # cs) i = (if startsWith (c # cs) p then Some i else index_from p cs (Suc i))"

text \<open>\<^verbatim>\<open>s.indexOf(p, from)\<close>: \<open>from\<close> is clamped to the string; \<open>-1\<close> when there is no occurrence.\<close>

definition indexOf :: "string \<Rightarrow> string \<Rightarrow> int \<Rightarrow> int" where
  "indexOf s p from =
     (let k = nat (max 0 (min from (int (length s))))
      in case index_from p (drop k s) k of None \<Rightarrow> - 1 | Some i \<Rightarrow> int i)"

text \<open>\<^verbatim>\<open>s.lastIndexOf(p, from)\<close>: the last occurrence that starts at or before \<open>from\<close>.\<close>

definition lastIndexOf :: "string \<Rightarrow> string \<Rightarrow> int \<Rightarrow> int" where
  "lastIndexOf s p from =
     (let k = nat (max 0 (min from (int (length s) - int (length p))))
      in if length s < length p then - 1
         else case filter (\<lambda>i. startsWith (drop i s) p) (rev [0..<Suc k]) of
                [] \<Rightarrow> - 1
              | i # _ \<Rightarrow> int i)"

text \<open>\<^verbatim>\<open>s.includes(p)\<close>\<close>

fun str_includes :: "string \<Rightarrow> string \<Rightarrow> bool" where
  "str_includes [] p = (p = [])"
| "str_includes (c # cs) p = (startsWith (c # cs) p \<or> str_includes cs p)"

text \<open>\<^verbatim>\<open>s.slice(b, e)\<close>: a negative index counts from the end.\<close>

definition slice :: "string \<Rightarrow> int \<Rightarrow> int \<Rightarrow> string" where
  "slice s b e =
     (let len = int (length s);
          from = (if b < 0 then max (len + b) 0 else min b len);
          to = (if e < 0 then max (len + e) 0 else min e len)
      in take (nat (to - from)) (drop (nat from) s))"

text \<open>
  White space and line terminators among the code units below 256: tab, line feed, vertical
  tab, form feed, carriage return, space, no-break space. It is what \<^verbatim>\<open>trim\<close> strips and
  what \<^verbatim>\<open>\s\<close> matches.
\<close>

definition is_space :: "char \<Rightarrow> bool" where
  "is_space c = (let n = (of_char c :: nat) in (9 \<le> n \<and> n \<le> 13) \<or> n = 32 \<or> n = 160)"

definition trim :: "string \<Rightarrow> string" where
  "trim s = rev (dropWhile is_space (rev (dropWhile is_space s)))"

text \<open>\<^verbatim>\<open>s.split(c)\<close> for a separator of one character: never an empty list.\<close>

fun split_where :: "(char \<Rightarrow> bool) \<Rightarrow> string \<Rightarrow> string list" where
  "split_where sep [] = [[]]"
| "split_where sep (c # cs) =
     (if sep c then [] # split_where sep cs
      else (case split_where sep cs of
              [] \<Rightarrow> [[c]]
            | piece # pieces \<Rightarrow> (c # piece) # pieces))"

definition split_char :: "char \<Rightarrow> string \<Rightarrow> string list" where
  "split_char c s = split_where (\<lambda>x. x = c) s"

section \<open>Regular expressions\<close>

text \<open>
  The regular expressions of the program are values of type \<open>regex\<close>, and \<open>run_re\<close> matches them
  the way a backtracking matcher does:
  \<^item> \<open>Lit c\<close> a character; \<open>Cls neg rs\<close> a class \<^verbatim>\<open>[...]\<close> given by its ranges, negated
    (\<^verbatim>\<open>[^...]\<close>) when \<open>neg\<close> holds; \<open>Bol\<close>, \<open>Eol\<close>, \<open>WordB\<close> the assertions \<^verbatim>\<open>^\<close>, \<^verbatim>\<open>$\<close> (no
    \<^verbatim>\<open>m\<close> flag) and \<^verbatim>\<open>\b\<close>; \<open>Eps\<close> the empty expression;
  \<^item> \<open>Seq\<close>, \<open>Alt\<close> sequence and alternative; \<open>Star True r\<close> is \<^verbatim>\<open>r*\<close>, \<open>Star False r\<close> is
    \<^verbatim>\<open>r*?\<close>; \<open>Grp n r\<close> is the capturing group number \<open>n\<close>.
  \<open>run_re ic s r (i, cs)\<close> lists, in the order in which backtracking would try them, the states
  (end index and captures) in which \<open>r\<close> can match \<open>s\<close> from index \<open>i\<close> with captures \<open>cs\<close>; the
  match is the head of the list. \<open>ic\<close> is the \<^verbatim>\<open>i\<close> flag. An iteration of a star that
  consumes nothing is rejected, and the captures inside a star are reset at each iteration,
  as the language specifies.
\<close>

datatype regex =
    Lit char
  | Cls bool "(char \<times> char) list"
  | Bol
  | Eol
  | WordB
  | Eps
  | Seq regex regex
  | Alt regex regex
  | Star bool regex
  | Grp nat regex

text \<open>
  Matching under the \<^verbatim>\<open>i\<close> flag compares canonical (upper case) characters. The patterns of
  the program are ASCII, and no character from 128 on has an ASCII canonical form, so ASCII
  case folding decides every comparison.
\<close>

fun ascii_lower :: "char \<Rightarrow> char" where
  "ascii_lower (Char b0 b1 b2 b3 b4 b5 b6 b7) =
     (let n = (of_char (Char b0 b1 b2 b3 b4 b5 b6 b7) :: nat)
      in if 65 \<le> n \<and> n \<le> 90 then Char b0 b1 b2 b3 b4 True b6 b7
         else Char b0 b1 b2 b3 b4 b5 b6 b7)"

fun upper_char :: "char \<Rightarrow> char" where
  "upper_char (Char b0 b1 b2 b3 b4 b5 b6 b7) =
     (let n = (of_char (Char b0 b1 b2 b3 b4 b5 b6 b7) :: nat)
      in if 97 \<le> n \<and> n \<le> 122 then Char b0 b1 b2 b3 b4 False b6 b7
         else Char b0 b1 b2 b3 b4 b5 b6 b7)"

definition in_ranges :: "(char \<times> char) list \<Rightarrow> char \<Rightarrow> bool" where
  "in_ranges rs c =
     list_ex (\<lambda>(lo, hi). (of_char lo :: nat) \<le> of_char c \<and> (of_char c :: nat) \<le> of_char hi) rs"

definition same_char :: "bool \<Rightarrow> char \<Rightarrow> char \<Rightarrow> bool" where
  "same_char ic c d = (if ic then upper_char c = upper_char d else c = d)"

definition in_class :: "bool \<Rightarrow> bool \<Rightarrow> (char \<times> char) list \<Rightarrow> char \<Rightarrow> bool" where
  "in_class ic neg rs c =
     ((if ic then in_ranges rs (ascii_lower c) \<or> in_ranges rs (upper_char c) else in_ranges rs c)
        \<noteq> neg)"

definition word_ranges :: "(char \<times> char) list" where
  "word_ranges = [(CHR ''a'', CHR ''z''), (CHR ''A'', CHR ''Z''), (CHR ''0'', CHR ''9''), (CHR ''_'', CHR ''_'')]"

definition is_word_at :: "string \<Rightarrow> int \<Rightarrow> bool" where
  "is_word_at s i = (0 \<le> i \<and> i < int (length s) \<and> in_ranges word_ranges (s ! nat i))"

text \<open>Captures: group number, start index, end index; the newest entry first.\<close>

type_synonym caps = "(nat \<times> nat \<times> nat) list"

fun groups :: "regex \<Rightarrow> nat list" where
  "groups (Seq r1 r2) = groups r1 @ groups r2"
| "groups (Alt r1 r2) = groups r1 @ groups r2"
| "groups (Star g r) = groups r"
| "groups (Grp n r) = n # groups r"
| "groups r = []"

definition clear_groups :: "nat list \<Rightarrow> caps \<Rightarrow> caps" where
  "clear_groups ns cs = filter (\<lambda>(n, be). n \<notin> set ns) cs"

function (sequential) run_re :: "bool \<Rightarrow> string \<Rightarrow> regex \<Rightarrow> nat \<times> caps \<Rightarrow> (nat \<times> caps) list" where
  "run_re ic s (Lit c) (i, cs) = (if i < length s \<and> same_char ic (s ! i) c then [(Suc i, cs)] else [])"
| "run_re ic s (Cls neg rs) (i, cs) =
     (if i < length s \<and> in_class ic neg rs (s ! i) then [(Suc i, cs)] else [])"
| "run_re ic s Bol (i, cs) = (if i = 0 then [(i, cs)] else [])"
| "run_re ic s Eol (i, cs) = (if i = length s then [(i, cs)] else [])"
| "run_re ic s WordB (i, cs) =
     (if is_word_at s (int i - 1) \<noteq> is_word_at s (int i) then [(i, cs)] else [])"
| "run_re ic s Eps (i, cs) = [(i, cs)]"
| "run_re ic s (Seq r1 r2) (i, cs) =
     concat (map (\<lambda>st. if i \<le> fst st then run_re ic s r2 st else []) (run_re ic s r1 (i, cs)))"
| "run_re ic s (Alt r1 r2) (i, cs) = run_re ic s r1 (i, cs) @ run_re ic s r2 (i, cs)"
| "run_re ic s (Star greedy r) (i, cs) =
     (let later = concat (map (\<lambda>st. if i < fst st \<and> fst st \<le> length s
                                     then run_re ic s (Star greedy r) st else [])
                          (run_re ic s r (i, clear_groups (groups r) cs)))
      in if greedy then later @ [(i, cs)] else (i, cs) # later)"
| "run_re ic s (Grp n r) (i, cs) = map (\<lambda>(j, cs'). (j, (n, i, j) # cs')) (run_re ic s r (i, cs))"
  by pat_completeness auto
termination
  by (relation "measures [\<lambda>(ic, s, r, st). length s - fst st, \<lambda>(ic, s, r, st). size r]") auto

declare run_re.simps [simp del]

definition match_at :: "bool \<Rightarrow> regex \<Rightarrow> string \<Rightarrow> nat \<Rightarrow> (nat \<times> caps) option" where
  "match_at ic r s i = (case run_re ic s r (i, []) of [] \<Rightarrow> None | st # _ \<Rightarrow> Some st)"

text \<open>\<^verbatim>\<open>s.match(re)\<close> without the \<^verbatim>\<open>g\<close> flag: the leftmost start that matches.\<close>

definition re_match :: "bool \<Rightarrow> regex \<Rightarrow> string \<Rightarrow> (nat \<times> nat \<times> caps) option" where
  "re_match ic r s =
     (case List.find (\<lambda>i. match_at ic r s i \<noteq> None) [0..<Suc (length s)] of
        None \<Rightarrow> None
      | Some i \<Rightarrow> (case match_at ic r s i of None \<Rightarrow> None | Some (j, cs) \<Rightarrow> Some (i, j, cs)))"


definition group :: "string \<Rightarrow> nat \<times> nat \<times> caps \<Rightarrow> nat \<Rightarrow> string option" where
  "group s m n =
     (case m of (i, j, cs) \<Rightarrow>
        (case map_of cs n of None \<Rightarrow> None | Some (b, e) \<Rightarrow> Some (take (e - b) (drop b s))))"

text \<open>
  \<^verbatim>\<open>s.replace(re, rep)\<close> with the \<^verbatim>\<open>g\<close> flag, for a replacement text without \<^verbatim>\<open>$\<close>: matches are
  sought from left to right, each from the end of the one before; after an empty match the
  search moves one character on.
\<close>

function replace_from :: "bool \<Rightarrow> regex \<Rightarrow> string \<Rightarrow> string \<Rightarrow> nat \<Rightarrow> string" where
  "replace_from ic r rep s i =
     (if length s < i then []
      else case match_at ic r s i of
             Some (j, cs) \<Rightarrow>
               if i < j then rep @ replace_from ic r rep s j
               else rep @ (if i < length s then s ! i # replace_from ic r rep s (Suc i) else [])
           | None \<Rightarrow> if i < length s then s ! i # replace_from ic r rep s (Suc i) else [])"
  by pat_completeness auto
termination
  by (relation "measure (\<lambda>(ic, r, rep, s, i). Suc (length s) - i)") auto

declare replace_from.simps [simp del]

definition replace_all :: "bool \<Rightarrow> regex \<Rightarrow> string \<Rightarrow> string \<Rightarrow> string" where
  "replace_all ic r rep s = replace_from ic r rep s 0"

text \<open>Shorthands: a literal text, a sequence, \<^verbatim>\<open>r+\<close> (or \<^verbatim>\<open>r+?\<close>) and \<^verbatim>\<open>r?\<close>.\<close>

definition lits :: "string \<Rightarrow> regex" where
  "lits s = foldr (\<lambda>c r. Seq (Lit c) r) s Eps"
definition seqs :: "regex list \<Rightarrow> regex" where
  "seqs rs = foldr Seq rs Eps"
definition Plus :: "bool \<Rightarrow> regex \<Rightarrow> regex" where
  "Plus g r = Seq r (Star g r)"
definition Opt :: "regex \<Rightarrow> regex" where
  "Opt r = Alt r Eps"

section \<open>Numbers and positions\<close>

text \<open>
  Rounding to the nearest double, ties to even. Around a number \<open>x\<close> the doubles are the
  multiples of \<open>quantum x\<close>: \<open>2 ^ (e - 52)\<close> where \<open>2 ^ e \<le> |x| < 2 ^ (e + 1)\<close>, and
  \<open>2 ^ - 1074\<close> for the subnormal numbers, below \<open>2 ^ - 1022\<close>. A result that rounds to
  \<open>2 ^ 1024\<close> or more is infinite.
\<close>

definition round_even :: "real \<Rightarrow> int" where
  "round_even y =
     (let f = \<lfloor>y\<rfloor>; d = y - of_int f
      in if d < 1 / 2 then f else if 1 / 2 < d then f + 1 else if even f then f else f + 1)"

definition quantum :: "real \<Rightarrow> real" where
  "quantum x = 2 powr (of_int (max \<lfloor>log 2 \<bar>x\<bar>\<rfloor> (- 1022)) - 52)"

definition nearest :: "real \<Rightarrow> real" where
  "nearest x = of_int (round_even (\<bar>x\<bar> / quantum x)) * quantum x"

definition fl :: "real \<Rightarrow> jsnum" where
  "fl x =
     (if x = 0 then Fin 0
      else if 2 ^ 1024 \<le> nearest x then (if x < 0 then NegInf else PosInf)
      else Fin (if x < 0 then - nearest x else nearest x))"

text \<open>
  IEEE arithmetic: the sum, the product and the square root are the exact results, rounded.
\<close>

fun js_neg :: "jsnum \<Rightarrow> jsnum" where
  "js_neg (Fin x) = Fin (- x)"
| "js_neg PosInf = NegInf"
| "js_neg NegInf = PosInf"
| "js_neg NaN = NaN"

fun js_add :: "jsnum \<Rightarrow> jsnum \<Rightarrow> jsnum" where
  "js_add (Fin x) (Fin y) = fl (x + y)"
| "js_add NaN b = NaN"
| "js_add a NaN = NaN"
| "js_add PosInf NegInf = NaN"
| "js_add NegInf PosInf = NaN"
| "js_add PosInf b = PosInf"
| "js_add NegInf b = NegInf"
| "js_add a PosInf = PosInf"
| "js_add a NegInf = NegInf"

definition js_sub :: "jsnum \<Rightarrow> jsnum \<Rightarrow> jsnum" where
  "js_sub a b = js_add a (js_neg b)"

fun js_mul :: "jsnum \<Rightarrow> jsnum \<Rightarrow> jsnum" where
  "js_mul (Fin x) (Fin y) = fl (x * y)"
| "js_mul NaN b = NaN"
| "js_mul a NaN = NaN"
| "js_mul (Fin x) PosInf = (if x = 0 then NaN else if 0 < x then PosInf else NegInf)"
| "js_mul (Fin x) NegInf = (if x = 0 then NaN else if 0 < x then NegInf else PosInf)"
| "js_mul PosInf (Fin y) = (if y = 0 then NaN else if 0 < y then PosInf else NegInf)"
| "js_mul NegInf (Fin y) = (if y = 0 then NaN else if 0 < y then NegInf else PosInf)"
| "js_mul PosInf PosInf = PosInf"
| "js_mul NegInf NegInf = PosInf"
| "js_mul PosInf NegInf = NegInf"
| "js_mul NegInf PosInf = NegInf"

fun js_sqrt :: "jsnum \<Rightarrow> jsnum" where
  "js_sqrt (Fin x) = (if x < 0 then NaN else fl (sqrt x))"
| "js_sqrt PosInf = PosInf"
| "js_sqrt NegInf = NaN"
| "js_sqrt NaN = NaN"

text \<open>\<^verbatim>\<open>a > b\<close>: false as soon as one side is NaN.\<close>

fun js_gt :: "jsnum \<Rightarrow> jsnum \<Rightarrow> bool" where
  "js_gt (Fin x) (Fin y) = (y < x)"
| "js_gt NaN b = False"
| "js_gt a NaN = False"
| "js_gt PosInf PosInf = False"
| "js_gt PosInf b = True"
| "js_gt NegInf b = False"
| "js_gt a NegInf = True"
| "js_gt a PosInf = False"

text \<open>
  \<^verbatim>\<open>Vec3\<close> of the vec3 package: the constructor stores its three arguments, and
  \<^verbatim>\<open>a.distanceTo(b)\<close> is \<^verbatim>\<open>Math.sqrt(dx * dx + dy * dy + dz * dz)\<close>.
\<close>

record vec3 =
  vx :: jsnum
  vy :: jsnum
  vz :: jsnum

definition Vec3 :: "jsnum \<Rightarrow> jsnum \<Rightarrow> jsnum \<Rightarrow> vec3" where
  "Vec3 x y z = \<lparr>vx = x, vy = y, vz = z\<rparr>"

definition distanceTo :: "vec3 \<Rightarrow> vec3 \<Rightarrow> jsnum" where
  "distanceTo a b =
     (let dx = js_sub (vx b) (vx a); dy = js_sub (vy b) (vy a); dz = js_sub (vz b) (vz a)
      in js_sqrt (js_add (js_add (js_mul dx dx) (js_mul dy dy)) (js_mul dz dz)))"

section \<open>Numbers from text\<close>

definition is_digit :: "char \<Rightarrow> bool" where
  "is_digit c = (let n = (of_char c :: nat) in 48 \<le> n \<and> n \<le> 57)"

definition digit_val :: "char \<Rightarrow> nat" where
  "digit_val c = of_char c - 48"

definition digits_val :: "string \<Rightarrow> nat" where
  "digits_val ds = foldl (\<lambda>a c. 10 * a + digit_val c) 0 ds"

text \<open>
  The number a decimal literal denotes: \<open>m\<close> are the digits before and after the point, \<open>f\<close> how
  many of them stand after it, \<open>e\<close> the exponent. The value of the literal is rounded to the
  nearest double.
\<close>

definition decimal :: "bool \<Rightarrow> string \<Rightarrow> nat \<Rightarrow> int \<Rightarrow> jsnum" where
  "decimal neg m f e =
     (let k = e - int f;
          v = (if 0 \<le> k then real (digits_val m) * 10 ^ nat k else real (digits_val m) / 10 ^ nat (- k))
      in if neg then js_neg (fl v) else fl v)"

text \<open>
  A decimal literal \<^verbatim>\<open>digits [. digits] [e [+-] digits]\<close> without sign, split into its parts;
  \<open>None\<close> when the text is not of that form. With \<open>strict\<close> it is the JSON grammar: no leading
  zero before another digit, at least one digit before the point and one after it. Without,
  it is the grammar of \<^verbatim>\<open>Number(text)\<close>: the digits before or after the point may be missing,
  not both.
\<close>

definition exponent_part :: "string \<Rightarrow> int option" where
  "exponent_part s =
     (case s of
        [] \<Rightarrow> Some 0
      | c # r \<Rightarrow>
          if c = CHR ''e'' \<or> c = CHR ''E'' then
            (let neg = (take 1 r = ''-'');
                 ds = (if take 1 r = ''-'' \<or> take 1 r = ''+'' then drop 1 r else r)
             in if ds \<noteq> [] \<and> list_all is_digit ds
                then Some (if neg then - int (digits_val ds) else int (digits_val ds))
                else None)
          else None)"

definition unsigned_decimal :: "bool \<Rightarrow> bool \<Rightarrow> string \<Rightarrow> jsnum option" where
  "unsigned_decimal strict neg s =
     (let ip = takeWhile is_digit s; r1 = dropWhile is_digit s;
          has_point = (take 1 r1 = ''.'');
          fp = (if has_point then takeWhile is_digit (drop 1 r1) else []);
          r2 = (if has_point then dropWhile is_digit (drop 1 r1) else r1)
      in if ip = [] \<and> fp = [] then None
         else if strict \<and> (ip = [] \<or> (has_point \<and> fp = []) \<or> (1 < length ip \<and> take 1 ip = ''0''))
         then None
         else (case exponent_part r2 of
                 None \<Rightarrow> None
               | Some e \<Rightarrow> Some (decimal neg (ip @ fp) (length fp) e)))"

text \<open>A number of the JSON grammar: an optional minus sign, then a strict decimal literal.\<close>

definition json_number :: "string \<Rightarrow> jsnum option" where
  "json_number s =
     (if take 1 s = ''-'' then unsigned_decimal True True (drop 1 s)
      else unsigned_decimal True False s)"

definition radix_digit :: "nat \<Rightarrow> char \<Rightarrow> nat option" where
  "radix_digit b c =
     (let n = (of_char c :: nat);
          v = (if 48 \<le> n \<and> n \<le> 57 then n - 48
               else if 97 \<le> n \<and> n \<le> 102 then n - 87
               else if 65 \<le> n \<and> n \<le> 70 then n - 55
               else 16)
      in if v < b then Some v else None)"

definition radix_val :: "nat \<Rightarrow> string \<Rightarrow> nat option" where
  "radix_val b ds =
     (if ds = [] \<or> list_ex (\<lambda>c. radix_digit b c = None) ds then None
      else Some (foldl (\<lambda>a c. b * a + (case radix_digit b c of None \<Rightarrow> 0 | Some v \<Rightarrow> v)) 0 ds))"

text \<open>
  \<^verbatim>\<open>Number(text)\<close>: white space around the literal is ignored; the empty text is 0;
  \<^verbatim>\<open>Infinity\<close> by name, a signed decimal literal, or an unsigned literal in base 16, 8 or 2;
  anything else is NaN.
\<close>

definition Number_of :: "string \<Rightarrow> jsnum" where
  "Number_of text =
     (let t = trim text;
          pre = toLowerCase (take 2 t)
      in if t = [] then Fin 0
         else if t = ''Infinity'' \<or> t = ''+Infinity'' then PosInf
         else if t = ''-Infinity'' then NegInf
         else if pre = ''0x'' \<or> pre = ''0o'' \<or> pre = ''0b'' then
           (case radix_val (if pre = ''0x'' then 16 else if pre = ''0o'' then 8 else 2) (drop 2 t) of
              None \<Rightarrow> NaN
            | Some n \<Rightarrow> fl (real n))
         else
           (case (if take 1 t = ''-'' then unsigned_decimal False True (drop 1 t)
                  else if take 1 t = ''+'' then unsigned_decimal False False (drop 1 t)
                  else unsigned_decimal False False t) of
              None \<Rightarrow> NaN
            | Some n \<Rightarrow> n))"

section \<open>JSON.parse\<close>

datatype tok = TLBrace | TRBrace | TLBrack | TRBrack | TColon | TComma | TStr string | TAtom jsval

text \<open>
  The lexer reads one character at a time. Outside a token it is \<open>LIdle\<close>; \<open>LWord\<close> collects
  the characters of a number or of \<^verbatim>\<open>true\<close>, \<^verbatim>\<open>false\<close>, \<^verbatim>\<open>null\<close> (reversed) up to the next
  delimiter; \<open>LStr\<close> is inside a string, \<open>LEsc\<close> after a backslash, \<open>LUni\<close> inside the four
  hexadecimal digits of a \<^verbatim>\<open>\u\<close> escape. An escape above code 255 is outside the modelled
  alphabet and is reported as a failure.
\<close>

datatype lmode = LIdle | LWord string | LStr string | LEsc string | LUni string string

definition flush_word :: "string \<Rightarrow> tok option" where
  "flush_word w =
     (if w = ''true'' then Some (TAtom (JBool True))
      else if w = ''false'' then Some (TAtom (JBool False))
      else if w = ''null'' then Some (TAtom JNull)
      else map_option (\<lambda>n. TAtom (JNum n)) (json_number w))"

definition punct :: "char \<Rightarrow> tok option" where
  "punct c =
     (if c = CHR ''{'' then Some TLBrace else if c = CHR ''}'' then Some TRBrace
      else if c = CHR ''['' then Some TLBrack else if c = CHR '']'' then Some TRBrack
      else if c = CHR '':'' then Some TColon else if c = CHR '','' then Some TComma
      else None)"

definition json_space :: "char \<Rightarrow> bool" where
  "json_space c = (c = CHR '' '' \<or> c = CHR 0x09 \<or> c = CHR 0x0A \<or> c = CHR 0x0D)"

definition escape_char :: "char \<Rightarrow> char option" where
  "escape_char c =
     (if c = CHR 0x22 then Some (CHR 0x22) else if c = CHR 0x5C then Some (CHR 0x5C)
      else if c = CHR ''/'' then Some (CHR ''/'') else if c = CHR ''b'' then Some (CHR 0x08)
      else if c = CHR ''f'' then Some (CHR 0x0C) else if c = CHR ''n'' then Some (CHR 0x0A)
      else if c = CHR ''r'' then Some (CHR 0x0D) else if c = CHR ''t'' then Some (CHR 0x09)
      else None)"

text \<open>One character in idle mode: a delimiter, the start of a string, or the start of a word.\<close>

definition lex_idle :: "char \<Rightarrow> tok list \<Rightarrow> (lmode \<times> tok list) option" where
  "lex_idle c acc =
     (if json_space c then Some (LIdle, acc)
      else if c = CHR 0x22 then Some (LStr [], acc)
      else (case punct c of
              Some t \<Rightarrow> Some (LIdle, t # acc)
            | None \<Rightarrow> Some (LWord [c], acc)))"

fun lex_step :: "(lmode \<times> tok list) option \<Rightarrow> char \<Rightarrow> (lmode \<times> tok list) option" where
  "lex_step None c = None"
| "lex_step (Some (LIdle, acc)) c = lex_idle c acc"
| "lex_step (Some (LWord w, acc)) c =
     (if json_space c \<or> c = CHR 0x22 \<or> punct c \<noteq> None then
        (case flush_word (rev w) of
           None \<Rightarrow> None
         | Some t \<Rightarrow> lex_idle c (t # acc))
      else Some (LWord (c # w), acc))"
| "lex_step (Some (LStr s, acc)) c =
     (if c = CHR 0x22 then Some (LIdle, TStr (rev s) # acc)
      else if c = CHR 0x5C then Some (LEsc s, acc)
      else if (of_char c :: nat) < 32 then None
      else Some (LStr (c # s), acc))"
| "lex_step (Some (LEsc s, acc)) c =
     (if c = CHR ''u'' then Some (LUni s [], acc)
      else (case escape_char c of
              None \<Rightarrow> None
            | Some d \<Rightarrow> Some (LStr (d # s), acc)))"
| "lex_step (Some (LUni s h, acc)) c =
     (case radix_digit 16 c of
        None \<Rightarrow> None
      | Some v \<Rightarrow>
          if length h < 3 then Some (LUni s (c # h), acc)
          else (case radix_val 16 (rev (c # h)) of
                  None \<Rightarrow> None
                | Some n \<Rightarrow> if n < 256 then Some (LStr (char_of n # s), acc) else None))"

definition lex :: "string \<Rightarrow> tok list option" where
  "lex s =
     (case foldl lex_step (Some (LIdle, [])) s of
        None \<Rightarrow> None
      | Some (LIdle, acc) \<Rightarrow> Some (rev acc)
      | Some (LWord w, acc) \<Rightarrow> map_option (\<lambda>t. rev (t # acc)) (flush_word (rev w))
      | Some (m, acc) \<Rightarrow> None)"

text \<open>
  The parser keeps a stack of the arrays and objects that are open, each with what was read
  of it (reversed) and what may come next.
\<close>

datatype frame =
    ArrOpen
  | ArrVal "jsval list"
  | ArrNext "jsval list"
  | ObjOpen
  | ObjKey "(string \<times> jsval) list"
  | ObjColon "(string \<times> jsval) list" string
  | ObjVal "(string \<times> jsval) list" string
  | ObjNext "(string \<times> jsval) list"

datatype pstate = Run "frame list" | Done jsval | Bad

text \<open>
  \<^verbatim>\<open>obj[k] = v\<close> on an object that has only own data properties: an existing key keeps its
  place and takes the new value, a new key goes last.
\<close>

fun obj_set :: "(string \<times> jsval) list \<Rightarrow> string \<Rightarrow> jsval \<Rightarrow> (string \<times> jsval) list" where
  "obj_set [] k v = [(k, v)]"
| "obj_set ((k', v') # kvs) k v = (if k' = k then (k, v) # kvs else (k', v') # obj_set kvs k v)"

definition members :: "(string \<times> jsval) list \<Rightarrow> jsval" where
  "members kvs = JObj (foldl (\<lambda>acc (k, v). obj_set acc k v) [] (rev kvs))"

text \<open>A value is complete: it goes where the innermost open array or object expects it.\<close>

fun push_value :: "jsval \<Rightarrow> frame list \<Rightarrow> pstate" where
  "push_value v [] = Done v"
| "push_value v (ArrOpen # st) = Run (ArrNext [v] # st)"
| "push_value v (ArrVal es # st) = Run (ArrNext (v # es) # st)"
| "push_value v (ObjVal kvs k # st) = Run (ObjNext ((k, v) # kvs) # st)"
| "push_value v (f # st) = Bad"

fun parse_step :: "pstate \<Rightarrow> tok \<Rightarrow> pstate" where
  "parse_step (Run st) (TAtom v) = push_value v st"
| "parse_step (Run (ObjOpen # st)) (TStr s) = Run (ObjColon [] s # st)"
| "parse_step (Run (ObjKey kvs # st)) (TStr s) = Run (ObjColon kvs s # st)"
| "parse_step (Run st) (TStr s) = push_value (JStr s) st"
| "parse_step (Run []) TLBrack = Run [ArrOpen]"
| "parse_step (Run (ArrOpen # st)) TLBrack = Run (ArrOpen # ArrOpen # st)"
| "parse_step (Run (ArrVal es # st)) TLBrack = Run (ArrOpen # ArrVal es # st)"
| "parse_step (Run (ObjVal kvs k # st)) TLBrack = Run (ArrOpen # ObjVal kvs k # st)"
| "parse_step (Run []) TLBrace = Run [ObjOpen]"
| "parse_step (Run (ArrOpen # st)) TLBrace = Run (ObjOpen # ArrOpen # st)"
| "parse_step (Run (ArrVal es # st)) TLBrace = Run (ObjOpen # ArrVal es # st)"
| "parse_step (Run (ObjVal kvs k # st)) TLBrace = Run (ObjOpen # ObjVal kvs k # st)"
| "parse_step (Run (ArrOpen # st)) TRBrack = push_value (JArr []) st"
| "parse_step (Run (ArrNext es # st)) TRBrack = push_value (JArr (rev es)) st"
| "parse_step (Run (ObjOpen # st)) TRBrace = push_value (JObj []) st"
| "parse_step (Run (ObjNext kvs # st)) TRBrace = push_value (members kvs) st"
| "parse_step (Run (ArrNext es # st)) TComma = Run (ArrVal es # st)"
| "parse_step (Run (ObjNext kvs # st)) TComma = Run (ObjKey kvs # st)"
| "parse_step (Run (ObjColon kvs k # st)) TColon = Run (ObjVal kvs k # st)"
| "parse_step p t = Bad"

definition JSON_parse :: "string \<Rightarrow> exn + jsval" where
  "JSON_parse text =
     (case lex text of
        None \<Rightarrow> Inl SyntaxError
      | Some ts \<Rightarrow> (case foldl parse_step (Run []) ts of
                     Done v \<Rightarrow> Inr v
                   | _ \<Rightarrow> Inl SyntaxError))"
section \<open>The reply sanitizer\<close>

definition any_char :: regex where
  "any_char = Cls True []"

definition space_ranges :: "(char \<times> char) list" where
  "space_ranges = [(CHR 0x09, CHR 0x0D), (CHR '' '', CHR '' ''), (CHR 0xA0, CHR 0xA0)]"

definition space :: regex where
  "space = Cls False space_ranges"

definition word :: regex where
  "word = Cls False word_ranges"

definition dot :: regex where
  "dot = Cls True [(CHR 0x0A, CHR 0x0A), (CHR 0x0D, CHR 0x0D)]"

definition quote :: regex where
  "quote = Cls False [(CHR 0x22, CHR 0x22), (CHR 0x27, CHR 0x27)]"

text \<open>The backtick, and the two fence markers \<^verbatim>\<open>```\<close> and \<^verbatim>\<open>```json\<close>.\<close>

definition bt :: char where
  "bt = CHR 0x60"

definition fence :: string where
  "fence = [bt, bt, bt]"

definition fence_json :: string where
  "fence_json = fence @ ''json''"

text \<open>
  \<^verbatim>\<open>/```[\s\S]*?```/g\<close>, \<^verbatim>\<open>/\{[\s\S]*\}/g\<close> and \<^verbatim>\<open>/\s+/g\<close>
\<close>

definition fenced_re :: regex where
  "fenced_re = seqs [lits fence, Star False any_char, lits fence]"

definition braces_re :: regex where
  "braces_re = seqs [Lit (CHR ''{''), Star True any_char, Lit (CHR ''}'')]"

definition spaces_re :: regex where
  "spaces_re = Plus True space"

text \<open>
  The text of \<^verbatim>\<open>sanitizeLLMReplyForChat\<close> before the length limit: fenced code removed, then
  what lies between the first opening and the last closing brace, then white space collapsed
  and trimmed.
\<close>

definition clean_reply :: "string \<Rightarrow> string" where
  "clean_reply reply =
     trim (replace_all False spaces_re '' ''
             (replace_all False braces_re [] (replace_all False fenced_re [] reply)))"

text \<open>
  \<^verbatim>\<open>sanitizeLLMReplyForChat(reply)\<close> on a string: empty for an empty reply and for the
  unwanted preamble, else the cleaned text, cut to 237 characters and three dots when it is
  longer than 240.
\<close>

definition sanitizeLLMReplyForChat :: "string \<Rightarrow> string" where
  "sanitizeLLMReplyForChat reply =
     (if reply = [] then []
      else (let s = clean_reply reply
            in if startsWith s ''\"Alright, let'' then []
               else if 240 < length s then slice s 0 237 @ ''...''
               else s))"

section \<open>Extraction of plans and actions from text\<close>

text \<open>\<^verbatim>\<open>Array.isArray(v)\<close>\<close>

fun isArray :: "jsval \<Rightarrow> bool" where
  "isArray (JArr xs) = True"
| "isArray v = False"

text \<open>
  The tests on the parsed object: \<^verbatim>\<open>obj && obj.plan && Array.isArray(obj.plan.steps)\<close>, which
  returns \<^verbatim>\<open>obj.plan\<close>, and \<^verbatim>\<open>obj && Array.isArray(obj.actions)\<close>, which returns
  \<^verbatim>\<open>obj.actions\<close>. \<open>None\<close>: the test fails and the function goes on.
\<close>

definition plan_in :: "jsval \<Rightarrow> exn + jsval option" where
  "plan_in obj =
     (if \<not> truthy obj then Inr None
      else bindE (get_prop obj ''plan'') (\<lambda>pl.
        if \<not> truthy pl then Inr None
        else bindE (get_prop pl ''steps'') (\<lambda>st.
          Inr (if isArray st then Some pl else None))))"

definition actions_in :: "jsval \<Rightarrow> exn + jsval option" where
  "actions_in obj =
     (if \<not> truthy obj then Inr None
      else bindE (get_prop obj ''actions'') (\<lambda>acts.
        Inr (if isArray acts then Some acts else None)))"

text \<open>\<^verbatim>\<open>try { const obj = JSON.parse(jsonText); if (test) return ... } catch {}\<close>\<close>

definition try_json :: "(jsval \<Rightarrow> exn + jsval option) \<Rightarrow> string \<Rightarrow> exn + jsval option" where
  "try_json pick jsonText = try_catch (bindE (JSON_parse jsonText) pick) (\<lambda>e. Inr None)"

text \<open>
  The loop that counts braces from \<open>start\<close>: \<open>cs\<close> is the text from index \<open>i\<close> on; the result
  is the index of the closing brace that brings the depth back to 0.
\<close>

fun brace_end :: "string \<Rightarrow> int \<Rightarrow> nat \<Rightarrow> nat option" where
  "brace_end [] depth i = None"
| "brace_end (c # cs) depth i =
     (if c = CHR ''{'' then brace_end cs (depth + 1) (Suc i)
      else if c = CHR ''}'' then
        (if depth - 1 = 0 then Some i else brace_end cs (depth - 1) (Suc i))
      else brace_end cs depth (Suc i))"

text \<open>First strategy: the text between \<^verbatim>\<open>```json\<close> and the next \<^verbatim>\<open>```\<close>, trimmed and parsed.\<close>

definition fenced_json :: "(jsval \<Rightarrow> exn + jsval option) \<Rightarrow> string \<Rightarrow> exn + jsval option" where
  "fenced_json pick text =
     (let codeFenceStart = indexOf text fence_json 0;
          codeFenceEnd = indexOf text fence (codeFenceStart + 7)
      in if codeFenceStart \<noteq> - 1 \<and> codeFenceEnd \<noteq> - 1
         then try_json pick (trim (slice text (codeFenceStart + 7) codeFenceEnd))
         else Inr None)"

text \<open>
  Second strategy: the first occurrence of the quoted key, the nearest opening brace before it
  (else the first after it), the text up to the matching closing brace, parsed.
\<close>

definition inline_json :: "string \<Rightarrow> (jsval \<Rightarrow> exn + jsval option) \<Rightarrow> string \<Rightarrow> exn + jsval option" where
  "inline_json key pick text =
     (let keyIdx = indexOf text key 0
      in if keyIdx \<noteq> - 1 then
           (let start0 = lastIndexOf text ''{'' keyIdx;
                start = (if start0 = - 1 then indexOf text ''{'' keyIdx else start0)
            in if start \<noteq> - 1 then
                 (case brace_end (drop (nat start) text) 0 (nat start) of
                    None \<Rightarrow> Inr None
                  | Some i \<Rightarrow> try_json pick (slice text start (int i + 1)))
               else Inr None)
         else Inr None)"

text \<open>
  \<^verbatim>\<open>parsePlanFromReply(text)\<close> and \<^verbatim>\<open>parseJsonActionsFromReply(text)\<close>: the same two strategies
  in the same order, one for the key \<^verbatim>\<open>"plan"\<close>, the other for \<^verbatim>\<open>"actions"\<close>; \<^verbatim>\<open>null\<close> when
  neither yields a result.
\<close>

definition parsePlanFromReply :: "string \<Rightarrow> exn + jsval" where
  "parsePlanFromReply text =
     (if text = [] then Inr JNull
      else bindE (fenced_json plan_in text) (\<lambda>r.
        case r of
          Some plan \<Rightarrow> Inr plan
        | None \<Rightarrow> bindE (inline_json ''\"plan\"'' plan_in text) (\<lambda>r'.
            case r' of Some plan \<Rightarrow> Inr plan | None \<Rightarrow> Inr JNull)))"

definition parseJsonActionsFromReply :: "string \<Rightarrow> exn + jsval" where
  "parseJsonActionsFromReply text =
     (if text = [] then Inr JNull
      else bindE (fenced_json actions_in text) (\<lambda>r.
        case r of
          Some acts \<Rightarrow> Inr acts
        | None \<Rightarrow> bindE (inline_json ''\"actions\"'' actions_in text) (\<lambda>r'.
            case r' of Some acts \<Rightarrow> Inr acts | None \<Rightarrow> Inr JNull)))"

text \<open>
  The directive line. \<^verbatim>\<open>/^([a-zA-Z0-9_]+)(?:\((.*)\))?$/\<close> splits a command into its name and
  the text between the parentheses; \<^verbatim>\<open>/^['\"]|['\"]$/g\<close> finds a quote at either end.
\<close>

definition command_re :: regex where
  "command_re =
     seqs [Bol, Grp 1 (Plus True word),
           Opt (seqs [Lit (CHR ''(''), Grp 2 (Star True dot), Lit (CHR '')'')]), Eol]"

definition quote_ends_re :: regex where
  "quote_ends_re = Alt (Seq Bol quote) (Seq quote Eol)"

text \<open>\<^verbatim>\<open>isNaN(n)\<close>\<close>

definition isNaN :: "jsnum \<Rightarrow> bool" where
  "isNaN n = (n = NaN)"

text \<open>
  \<^verbatim>\<open>params[k] = v\<close> for a primitive \<open>v\<close>: the key \<^verbatim>\<open>__proto__\<close> names the prototype setter, which
  ignores a primitive.
\<close>

definition assign :: "(string \<times> jsval) list \<Rightarrow> string \<Rightarrow> jsval \<Rightarrow> (string \<times> jsval) list" where
  "assign params k v = (if k = ''__proto__'' then params else obj_set params k v)"

text \<open>One turn of the loop over the entries \<^verbatim>\<open>k=v\<close> of a parameter list.\<close>

definition param_entry :: "(string \<times> jsval) list \<Rightarrow> string \<Rightarrow> (string \<times> jsval) list" where
  "param_entry params entry =
     (case split_char (CHR ''='') entry of
        [] \<Rightarrow> params
      | k # rest \<Rightarrow>
          if k = [] then params
          else (case rest of
                  [] \<Rightarrow> assign params (trim k) (JBool True)
                | v # others \<Rightarrow>
                    if v = [] then assign params (trim k) (JBool True)
                    else if str_includes v [CHR 0x22] \<or> str_includes v [CHR 0x27] then
                      assign params (trim k) (JStr (replace_all False quote_ends_re [] v))
                    else if \<not> isNaN (Number_of v) then assign params (trim k) (JNum (Number_of v))
                    else assign params (trim k) (JStr (trim v))))"

definition make_action :: "string \<Rightarrow> (string \<times> jsval) list \<Rightarrow> jsval" where
  "make_action name params = JObj [(''name'', JStr name), (''params'', JObj params)]"

definition directive_command :: "string \<Rightarrow> jsval" where
  "directive_command cmd =
     (case re_match False command_re cmd of
        None \<Rightarrow> make_action (trim cmd) []
      | Some m \<Rightarrow>
          (case group cmd m 1 of
             None \<Rightarrow> make_action (trim cmd) []
           | Some name \<Rightarrow>
               (case group cmd m 2 of
                  None \<Rightarrow> make_action name []
                | Some paramsStr \<Rightarrow>
                    if paramsStr = [] then make_action name []
                    else make_action name (foldl param_entry [] (split_char (CHR '','') paramsStr)))))"

definition parseCommandLineFromReply :: "string \<Rightarrow> jsval list" where
  "parseCommandLineFromReply text =
     (if text = [] then []
      else (let sep = indexOf text ''//'' 0
            in if sep = - 1 then []
               else (let line = trim (slice text (sep + 2) (int (length text)))
                     in if line = [] then []
                        else map directive_command (split_char (CHR '';'') line))))"

text \<open>\<^verbatim>\<open>(v || d)\<close>\<close>

definition or_else :: "jsval \<Rightarrow> jsval \<Rightarrow> jsval" where
  "or_else v d = (if truthy v then v else d)"

























text \<open>
  The first two statements of \<^verbatim>\<open>gptPlanAndExecute\<close>: the actions of a JSON block when there are
  any, else those of a directive line.
\<close>

definition message_actions :: "string \<Rightarrow> exn + jsval list" where
  "message_actions message =
     bindE (parseJsonActionsFromReply message) (\<lambda>actions.
       case actions of
         JArr xs \<Rightarrow> if xs \<noteq> [] then Inr xs else Inr (parseCommandLineFromReply message)
       | _ \<Rightarrow> Inr (parseCommandLineFromReply message))"

section \<open>The bot, its state and the game collaborator\<close>

text \<open>
  The module-level variables of \<^verbatim>\<open>index.js\<close> (\<^verbatim>\<open>busy\<close>, \<^verbatim>\<open>currentTask\<close>, \<^verbatim>\<open>botIsOp\<close>,
  \<^verbatim>\<open>running\<close>), the bot's position, the messages sent with \<^verbatim>\<open>bot.chat\<close>, the delays
  awaited with \<^verbatim>\<open>sleep\<close>, and the rest of the game world (\<open>ext\<close>). Console output is not
  part of the state.
\<close>

record 'e world =
  position :: vec3
  chat_out :: "string list"
  sleeps :: "nat list"
  busy :: bool
  currentTask :: "string option"
  botIsOp :: bool
  running :: bool
  ext :: 'e

record block =
  bname :: string
  bposition :: vec3

text \<open>
  What mineflayer, the pathfinder and the JavaScript runtime do is not code of this program:
  each operation is a parameter, free to throw and to change the world. An operation returns
  its outcome together with the world it leaves, also when it throws.
  \<^item> \<open>chat_throws msg w\<close>: whether \<^verbatim>\<open>bot.chat(msg)\<close> throws in world \<open>w\<close>;
  \<^item> \<open>gotoNear pos range\<close>: the pathfinder goal of \<^verbatim>\<open>gotoNear\<close> and the event that resolves it;
  \<^item> \<open>blockAt pos\<close>: \<^verbatim>\<open>bot.blockAt\<close>, \<open>None\<close> for \<^verbatim>\<open>null\<close>;
  \<^item> \<open>equipPrefer names\<close>: the inventory search and \<^verbatim>\<open>bot.equip\<close> of \<^verbatim>\<open>equipPrefer\<close>;
  \<^item> \<open>dig_block b\<close>: the body of the \<^verbatim>\<open>try\<close> in \<^verbatim>\<open>safeDig\<close> (stop, look, dig, pick up);
  \<^item> \<open>num_str\<close>: how a number prints;
  \<^item> \<open>llm_reply instruction\<close>: the request \<^verbatim>\<open>sendChatCompletion\<close> makes to the language model
    and the reading of the reply text out of its response; \<open>None\<close> when there is no response;
  \<^item> \<open>wander\<close>: the random pathfinder goal of \<^verbatim>\<open>wanderSlightly\<close>.
\<close>

record 'e api =
  chat_throws :: "string \<Rightarrow> 'e world \<Rightarrow> bool"
  gotoNear :: "vec3 \<Rightarrow> nat \<Rightarrow> 'e world \<Rightarrow> (exn + bool) \<times> 'e world"
  blockAt :: "vec3 \<Rightarrow> 'e world \<Rightarrow> exn + block option"
  equipPrefer :: "string list \<Rightarrow> 'e world \<Rightarrow> (exn + bool) \<times> 'e world"
  dig_block :: "block \<Rightarrow> 'e world \<Rightarrow> (exn + unit) \<times> 'e world"
  num_str :: "jsnum \<Rightarrow> string"
  llm_reply :: "string \<Rightarrow> 'e world \<Rightarrow> (exn + string option) \<times> 'e world"
  wander :: "'e world \<Rightarrow> (exn + unit) \<times> 'e world"

text \<open>\<^verbatim>\<open>bot.chat(msg)\<close>, and the same inside \<^verbatim>\<open>try { ... } catch (e) {}\<close>.\<close>

definition bot_chat :: "'e api \<Rightarrow> string \<Rightarrow> 'e world \<Rightarrow> exn + 'e world" where
  "bot_chat a msg w =
     (if chat_throws a msg w then Inl (Failure ''chat'')
      else Inr (w\<lparr>chat_out := chat_out w @ [msg]\<rparr>))"

definition try_chat :: "'e api \<Rightarrow> string \<Rightarrow> 'e world \<Rightarrow> 'e world" where
  "try_chat a msg w = (case bot_chat a msg w of Inl e \<Rightarrow> w | Inr w' \<Rightarrow> w')"

definition sleep :: "nat \<Rightarrow> 'e world \<Rightarrow> 'e world" where
  "sleep ms w = w\<lparr>sleeps := sleeps w @ [ms]\<rparr>"

definition setBusy :: "bool \<Rightarrow> string option \<Rightarrow> 'e world \<Rightarrow> 'e world" where
  "setBusy state name w = w\<lparr>busy := state, currentTask := (if state then name else None)\<rparr>"

section \<open>Configuration\<close>

text \<open>
  \<^verbatim>\<open>const ALLOW_DESTRUCTIVE = process.env.ALLOW_DESTRUCTIVE === '1' || true\<close>
  \<^verbatim>\<open>const ALLOW_COMMANDS = process.env.ALLOW_COMMANDS === '1' || true\<close>
  \<^verbatim>\<open>const OWNER_USERNAME = process.env.MC_OWNER || null\<close>
  The environment is a map from variable names to strings.
\<close>

record config =
  ALLOW_DESTRUCTIVE :: bool
  ALLOW_COMMANDS :: bool
  OWNER_USERNAME :: "string option"

definition load_config :: "(string \<rightharpoonup> string) \<Rightarrow> config" where
  "load_config env =
     \<lparr>ALLOW_DESTRUCTIVE = (env ''ALLOW_DESTRUCTIVE'' = Some ''1'' \<or> True),
      ALLOW_COMMANDS = (env ''ALLOW_COMMANDS'' = Some ''1'' \<or> True),
      OWNER_USERNAME = (case env ''MC_OWNER'' of None \<Rightarrow> None
                        | Some s \<Rightarrow> if s = [] then None else Some s)\<rparr>"

section \<open>The command gate\<close>

text \<open>
  \<^verbatim>\<open>tryExecuteCommand(cmd)\<close>: an empty command is refused silently; with neither
  \<^verbatim>\<open>ALLOW_COMMANDS\<close> nor \<^verbatim>\<open>botIsOp\<close> the command is refused with a notice; otherwise it is
  sent to the chat channel with a leading slash, and the function returns false only if
  sending throws.
\<close>

definition tryExecuteCommand :: "config \<Rightarrow> 'e api \<Rightarrow> string \<Rightarrow> 'e world \<Rightarrow> bool \<times> 'e world" where
  "tryExecuteCommand cfg a cmd w =
     (if cmd = [] then (False, w)
      else if \<not> ALLOW_COMMANDS cfg \<and> \<not> botIsOp w then
        (False, try_chat a ''Cannot run command: not allowed or not op'' w)
      else
        (let cmd' = (if \<not> startsWith cmd ''/'' then ''/'' @ cmd else cmd)
         in case bot_chat a cmd' w of
              Inr w' \<Rightarrow> (True, w')
            | Inl e \<Rightarrow> (False, try_chat a ''Failed to send command'' w)))"

section \<open>Stateful computations\<close>

text \<open>
  An \<^verbatim>\<open>async\<close> function of the program, run to completion: from a world to an outcome
  (a value, or the exception thrown) and the world it leaves. The interleaving of other
  handlers while a function awaits is not modelled, except through what the collaborator's
  operations do to the world.
\<close>

type_synonym ('a, 'e) js = "'e world \<Rightarrow> (exn + 'a) \<times> 'e world"

definition ret :: "'a \<Rightarrow> ('a, 'e) js" where
  "ret x w = (Inr x, w)"

definition liftE :: "exn + 'a \<Rightarrow> ('a, 'e) js" where
  "liftE m w = (m, w)"

definition bindS :: "('a, 'e) js \<Rightarrow> ('a \<Rightarrow> ('b, 'e) js) \<Rightarrow> ('b, 'e) js" where
  "bindS m f w = (case m w of (Inl e, w') \<Rightarrow> (Inl e, w') | (Inr x, w') \<Rightarrow> f x w')"

text \<open>A statement that only changes the world.\<close>

definition effect :: "('e world \<Rightarrow> 'e world) \<Rightarrow> (unit, 'e) js" where
  "effect f w = (Inr (), f w)"

section \<open>Micro actions\<close>

text \<open>
  \<^verbatim>\<open>safeDig(block)\<close>: refuses a missing block and air; otherwise sets \<^verbatim>\<open>busy\<close> with the task
  name \<^verbatim>\<open>dig\<close>, digs, and clears \<^verbatim>\<open>busy\<close> in the \<^verbatim>\<open>finally\<close>, whether digging threw or not.
\<close>

definition safeDig :: "'e api \<Rightarrow> block option \<Rightarrow> 'e world \<Rightarrow> bool \<times> 'e world" where
  "safeDig a blk w =
     (case blk of
        None \<Rightarrow> (False, w)
      | Some b \<Rightarrow>
          if bname b = ''air'' then (False, w)
          else (case dig_block a b (setBusy True (Some ''dig'') w) of
                  (Inr u, w') \<Rightarrow> (True, setBusy False None w')
                | (Inl e, w') \<Rightarrow> (False, setBusy False None w')))"

text \<open>The three coordinates of \<^verbatim>\<open>p\<close>, when each of them has type number.\<close>

definition number_coords :: "jsval \<Rightarrow> exn + (jsnum \<times> jsnum \<times> jsnum) option" where
  "number_coords p =
     bindE (get_prop p ''x'') (\<lambda>x. bindE (get_prop p ''y'') (\<lambda>y. bindE (get_prop p ''z'') (\<lambda>z.
       Inr (case (x, y, z) of
              (JNum nx, JNum ny, JNum nz) \<Rightarrow> Some (nx, ny, nz)
            | _ \<Rightarrow> None))))"

text \<open>\<^verbatim>\<open>v.toLowerCase()\<close>: a method of strings only.\<close>

definition call_toLowerCase :: "jsval \<Rightarrow> exn + string" where
  "call_toLowerCase v = (case v of JStr s \<Rightarrow> Inr (toLowerCase s) | _ \<Rightarrow> Inl TypeError)"

definition coords_text :: "'e api \<Rightarrow> jsnum \<Rightarrow> jsnum \<Rightarrow> jsnum \<Rightarrow> string" where
  "coords_text a x y z = num_str a x @ '','' @ num_str a y @ '','' @ num_str a z"

text \<open>The message of \<^verbatim>\<open>inspect\<close>: \<^verbatim>\<open>p.blockName || (b && b.name) || 'unknown'\<close>, then the place.\<close>

definition inspect_text :: "'e api \<Rightarrow> jsval \<Rightarrow> block option \<Rightarrow> jsnum \<Rightarrow> jsnum \<Rightarrow> jsnum \<Rightarrow> exn + string" where
  "inspect_text a p b x y z =
     bindE (get_prop p ''blockName'') (\<lambda>bn.
       bindE (ToString (num_str a)
                (or_else (or_else bn (case b of None \<Rightarrow> JNull | Some blk \<Rightarrow> JStr (bname blk)))
                   (JStr ''unknown'')))
         (\<lambda>what. Inr (''Inspect: '' @ what @ '' at '' @ coords_text a x y z)))"

definition executeMicroAction :: "'e api \<Rightarrow> jsval \<Rightarrow> (bool, 'e) js" where
  "executeMicroAction a action =
     bindS (liftE (get_prop action ''name'')) (\<lambda>an.
     bindS (liftE (call_toLowerCase (or_else an (JStr [])))) (\<lambda>name.
     bindS (liftE (get_prop action ''params'')) (\<lambda>ap.
     let p = or_else ap (JObj []) in
     bindS (liftE (number_coords p)) (\<lambda>c.
       if name \<in> set [''goto'', ''goto_coords'', ''move''] then
         (case c of
            None \<Rightarrow> ret False
          | Some (x, y, z) \<Rightarrow> gotoNear a (Vec3 x y z) 1)
       else if name = ''inspect'' then
         (case c of
            None \<Rightarrow> ret False
          | Some (x, y, z) \<Rightarrow>
              (\<lambda>w. bindS (liftE (blockAt a (Vec3 x y z) w)) (\<lambda>b.
                 bindS (effect (\<lambda>w. case inspect_text a p b x y z of
                                      Inl e \<Rightarrow> w
                                    | Inr msg \<Rightarrow> try_chat a msg w))
                   (\<lambda>u. ret (b \<noteq> None))) w))
       else if name = ''dig'' \<or> name = ''mine'' then
         (case c of
            None \<Rightarrow> ret False
          | Some (x, y, z) \<Rightarrow>
              (\<lambda>w. bindS (liftE (blockAt a (Vec3 x y z) w)) (\<lambda>b.
                 case b of
                   None \<Rightarrow> ret False
                 | Some blk \<Rightarrow>
                     bindS (gotoNear a (bposition blk) 1) (\<lambda>r.
                     bindS (equipPrefer a [''wooden_pickaxe'', ''stone_pickaxe'', ''iron_pickaxe'',
                                           ''wooden_axe'', ''stone_axe'']) (\<lambda>r'.
                     (\<lambda>w. case safeDig a (Some blk) w of (res, w') \<Rightarrow> (Inr res, w'))))) w))
       else ret False))))"

section \<open>Plan execution\<close>

definition primitive_steps :: "string list" where
  "primitive_steps = [''inspect'', ''goto'', ''dig'', ''mine'']"

text \<open>
  What a turn of the loop of \<^verbatim>\<open>executePlan\<close> reads from the step \<open>s\<close>:
  \<^verbatim>\<open>String(s.name).toLowerCase()\<close> and \<^verbatim>\<open>s.params || {}\<close>; nothing (\<^verbatim>\<open>continue\<close>) when the step
  or its name is missing. The conversion of the name to a string can throw.
\<close>

definition read_step :: "'e api \<Rightarrow> jsval \<Rightarrow> exn + (string \<times> jsval) option" where
  "read_step a s =
     (if \<not> truthy s then Inr None
      else
        bindE (get_prop s ''name'') (\<lambda>sn.
        if \<not> truthy sn then Inr None
        else
          bindE (ToString (num_str a) sn) (\<lambda>str.
          bindE (get_prop s ''params'') (\<lambda>sp.
          Inr (Some (toLowerCase str, or_else sp (JObj [])))))))"

text \<open>\<^verbatim>\<open>if (s.rationale) try { bot.chat(`Plan: ${s.rationale}`) } catch (e) {}\<close>\<close>

definition announce_rationale :: "'e api \<Rightarrow> jsval \<Rightarrow> (unit, 'e) js" where
  "announce_rationale a s =
     bindS (liftE (get_prop s ''rationale'')) (\<lambda>r.
     effect (\<lambda>w. if truthy r then
                    (case ToString (num_str a) r of
                       Inl e \<Rightarrow> w
                     | Inr t \<Rightarrow> try_chat a (''Plan: '' @ t) w)
                  else w))"

text \<open>
  One turn of the loop, on the step \<open>s\<close>; each \<^verbatim>\<open>continue\<close> ends the turn. The checks come in
  the source's order: the step and its name, the type of the three coordinates, the distance
  from the bot's position now, the name. Only then is the rationale announced, the micro
  action awaited (outside any \<^verbatim>\<open>try\<close>), and 200 ms slept.
\<close>

definition executePlan_step :: "'e api \<Rightarrow> jsval \<Rightarrow> (unit, 'e) js" where
  "executePlan_step a s =
     bindS (liftE (read_step a s)) (\<lambda>r.
     case r of
       None \<Rightarrow> ret ()
     | Some (name, p) \<Rightarrow>
         bindS (liftE (number_coords p)) (\<lambda>c.
         case c of
           None \<Rightarrow> effect (try_chat a ''Skipping step: missing coordinates'')
         | Some (x, y, z) \<Rightarrow>
             (\<lambda>w.
               (if js_gt (distanceTo (position w) (Vec3 x y z)) (Fin 10) then
                  effect (try_chat a (''Skipping out-of-range step at '' @ coords_text a x y z))
                else if name \<notin> set primitive_steps then
                  effect (try_chat a (''Skipping unsupported step type: '' @ name))
                else
                  bindS (announce_rationale a s) (\<lambda>u.
                  bindS (executeMicroAction a (JObj [(''name'', JStr name), (''params'', p)])) (\<lambda>res.
                  effect (sleep 200)))) w)))"

fun executePlan_steps :: "'e api \<Rightarrow> jsval list \<Rightarrow> (unit, 'e) js" where
  "executePlan_steps a [] = ret ()"
| "executePlan_steps a (s # rest) = bindS (executePlan_step a s) (\<lambda>u. executePlan_steps a rest)"

text \<open>\<^verbatim>\<open>executePlan(steps)\<close>: false for anything but an array, else the loop and true.\<close>

definition executePlan :: "'e api \<Rightarrow> jsval \<Rightarrow> (bool, 'e) js" where
  "executePlan a steps =
     (case steps of
        JArr xs \<Rightarrow> bindS (executePlan_steps a xs) (\<lambda>u. ret True)
      | _ \<Rightarrow> ret False)"

section \<open>The planner tick\<close>





section \<open>Collaborators and inputs for concrete runs\<close>

text \<open>Decimal printing of the integers, as JavaScript prints them; the special values by name.\<close>

fun show_nat :: "nat \<Rightarrow> string" where
  "show_nat n =
     (if n < 10 then [''0123456789'' ! n] else show_nat (n div 10) @ [''0123456789'' ! (n mod 10)])"

declare show_nat.simps [simp del]

fun show_num :: "jsnum \<Rightarrow> string" where
  "show_num (Fin x) =
     (if x = of_int \<lfloor>x\<rfloor> then (if x < 0 then ''-'' else []) @ show_nat (nat \<bar>\<lfloor>x\<rfloor>\<bar>)
      else ''?'')"
| "show_num PosInf = ''Infinity''"
| "show_num NegInf = ''-Infinity''"
| "show_num NaN = ''NaN''"

text \<open>
  A collaborator for which everything succeeds: chat never throws, the pathfinder takes the
  bot to the goal, every position holds a stone block, digging works.
\<close>

definition obedient :: "unit api" where
  "obedient =
     \<lparr>chat_throws = (\<lambda>msg w. False),
      gotoNear = (\<lambda>v r w. (Inr True, w\<lparr>position := v\<rparr>)),
      blockAt = (\<lambda>v w. Inr (Some \<lparr>bname = ''stone'', bposition = v\<rparr>)),
      equipPrefer = (\<lambda>names w. (Inr False, w)),
      dig_block = (\<lambda>b w. (Inr (), w)),
      num_str = show_num,
      llm_reply = (\<lambda>instruction w. (Inr None, w)),
      wander = (\<lambda>w. (Inr (), w))\<rparr>"

text \<open>The same collaborator with a pathfinder that throws, and with a chat that throws.\<close>

definition stuck :: "unit api" where
  "stuck = obedient\<lparr>gotoNear := (\<lambda>v r w. (Inl (Failure ''pathfinder''), w))\<rparr>"

definition mute :: "unit api" where
  "mute = obedient\<lparr>chat_throws := (\<lambda>msg w. True)\<rparr>"



text \<open>The bot at the origin, idle, not an operator, with the planner loop running.\<close>

definition at_origin :: "unit world" where
  "at_origin =
     \<lparr>position = Vec3 (Fin 0) (Fin 0) (Fin 0), chat_out = [], sleeps = [], busy = False,
      currentTask = None, botIsOp = False, running = True, ext = ()\<rparr>"

text \<open>The step \<^verbatim>\<open>{"name": n, "params": {"x": x, "y": y, "z": z}}\<close>\<close>

definition step :: "string \<Rightarrow> jsnum \<Rightarrow> jsnum \<Rightarrow> jsnum \<Rightarrow> jsval" where
  "step n x y z =
     JObj [(''name'', JStr n), (''params'', JObj [(''x'', JNum x), (''y'', JNum y), (''z'', JNum z)])]"

text \<open>The same step with a rationale and a key the program does not read.\<close>

definition reasoned_step :: "string \<Rightarrow> jsnum \<Rightarrow> jsnum \<Rightarrow> jsnum \<Rightarrow> string \<Rightarrow> jsval" where
  "reasoned_step n x y z why =
     JObj [(''id'', JNum (Fin 7)), (''name'', JStr n),
           (''params'', JObj [(''x'', JNum x), (''y'', JNum y), (''z'', JNum z)]),
           (''rationale'', JStr why)]"

text \<open>
  The text of the priority example: a fenced plan of one inspect step, then a directive line.
  And a text with an empty \<^verbatim>\<open>```json\<close> block, a directive line that quotes a plan, and a
  valid fenced plan.
\<close>

definition example_json :: string where
  "example_json = ''{\"plan\":{\"steps\":[{\"name\":\"inspect\",\"params\":{\"x\":1,\"y\":2,\"z\":3}}]}}''"

definition example_body :: string where
  "example_body = [CHR 0x0A] @ example_json @ [CHR 0x0A]"

definition example_text :: string where
  "example_text = fence_json @ example_body @ fence @ ([CHR 0x0A] @ ''//dig(x=5,y=5,z=5)'')"

definition planner :: "unit api" where
  "planner = obedient\<lparr>llm_reply := (\<lambda>instruction w. (Inr (Some example_text), w))\<rparr>"

definition directive_json :: string where
  "directive_json = ''{\"plan\":{\"steps\":[{\"name\":\"dig\"}]}}''"

definition two_fences_text :: string where
  "two_fences_text = fence_json @ [] @ fence @ ([CHR 0x0A] @ ''//x('' @ directive_json @ '')'' @ [CHR 0x0A]
     @ fence_json @ ''{\"plan\":{\"steps\":[{\"name\":\"inspect\"}]}}'' @ fence)"

section \<open>Collaborators that do not see the program's variables\<close>

text \<open>
  \<^verbatim>\<open>busy\<close> and \<^verbatim>\<open>currentTask\<close> are variables of \<^verbatim>\<open>index.js\<close>, which mineflayer cannot read or
  write. A collaborator is \<open>blind\<close> when its operations do the same whatever the two
  variables hold, and leave them as they are.
\<close>

definition blind :: "'e api \<Rightarrow> bool" where
  "blind a \<longleftrightarrow>
     (\<forall>b t w.
        (\<forall>msg. chat_throws a msg (w\<lparr>busy := b, currentTask := t\<rparr>) = chat_throws a msg w)
      \<and> (\<forall>v r. gotoNear a v r (w\<lparr>busy := b, currentTask := t\<rparr>)
                 = (fst (gotoNear a v r w), (snd (gotoNear a v r w))\<lparr>busy := b, currentTask := t\<rparr>))
      \<and> (\<forall>v. blockAt a v (w\<lparr>busy := b, currentTask := t\<rparr>) = blockAt a v w)
      \<and> (\<forall>names. equipPrefer a names (w\<lparr>busy := b, currentTask := t\<rparr>)
                 = (fst (equipPrefer a names w),
                    (snd (equipPrefer a names w))\<lparr>busy := b, currentTask := t\<rparr>))
      \<and> (\<forall>blk. dig_block a blk (w\<lparr>busy := b, currentTask := t\<rparr>)
                 = (fst (dig_block a blk w), (snd (dig_block a blk w))\<lparr>busy := b, currentTask := t\<rparr>)))"



section \<open>Values without nested objects\<close>

text \<open>
  A value is \<open>plain\<close> when no object occurs in it, and \<open>flat\<close> when it is plain or an object
  whose properties are plain.
\<close>

fun plain :: "jsval \<Rightarrow> bool" where
  "plain (JObj kvs) = False"
| "plain (JArr xs) = list_all plain xs"
| "plain v = True"

definition plain_props :: "(string \<times> jsval) list \<Rightarrow> bool" where
  "plain_props kvs = list_all (\<lambda>(k, v). plain v) kvs"








section \<open>Facts about rounding\<close>

lemma round_even_int [simp]: "round_even (of_int n) = n"
  by (simp add: round_even_def)

lemma round_even_le:
  assumes "y \<le> of_int n"
  shows "round_even y \<le> n"
proof -
  have f: "\<lfloor>y\<rfloor> \<le> n" using assms by (simp add: floor_le_iff)
  show ?thesis
  proof (cases "\<lfloor>y\<rfloor> = n")
    case True
    then have "y - of_int \<lfloor>y\<rfloor> \<le> 0" using assms by simp
    then show ?thesis using True by (simp add: round_even_def Let_def)
  next
    case False
    with f have "\<lfloor>y\<rfloor> + 1 \<le> n" by simp
    then show ?thesis by (simp add: round_even_def Let_def)
  qed
qed

lemma round_even_ge:
  assumes "of_int n \<le> y"
  shows "n \<le> round_even y"
proof -
  have "n \<le> \<lfloor>y\<rfloor>" using assms by (simp add: le_floor_iff)
  then show ?thesis by (simp add: round_even_def Let_def)
qed

lemma two_powr_int:
  "(2::real) powr of_int k = (if 0 \<le> k then 2 ^ nat k else 1 / 2 ^ nat (- k))"
proof (cases "0 \<le> k")
  case True
  then have "(2::real) powr of_int k = 2 powr real (nat k)" by simp
  also have "\<dots> = 2 ^ nat k" by (rule powr_realpow) simp
  finally show ?thesis using True by simp
next
  case False
  then have "(2::real) powr of_int k = 2 powr (- real (nat (- k)))" by simp
  also have "\<dots> = 1 / 2 powr real (nat (- k))" by (simp add: powr_minus divide_inverse)
  also have "2 powr real (nat (- k)) = (2::real) ^ nat (- k)" by (rule powr_realpow) simp
  finally show ?thesis using False by simp
qed

lemma floor_log2_le:
  assumes "0 < x" and "x < 2 ^ Suc k"
  shows "\<lfloor>log 2 x\<rfloor> \<le> int k"
proof -
  have "(2::real) powr real (Suc k) = 2 ^ Suc k" by (rule powr_realpow) simp
  with assms(2) have "x < 2 powr real (Suc k)" by simp
  then have "log 2 x < real (Suc k)"
    using assms(1) by (simp only: log_less_iff [of 2 x, simplified])
  then have "log 2 x < real_of_int (int k + 1)" by simp
  then have "\<lfloor>log 2 x\<rfloor> < int k + 1" by (simp only: floor_less_iff)
  then show ?thesis by simp
qed

lemma floor_log2_ge:
  assumes "2 ^ k \<le> x"
  shows "int k \<le> \<lfloor>log 2 x\<rfloor>"
proof -
  have pos: "0 < x" using assms by (smt (verit) zero_less_power)
  have "(2::real) powr real k = 2 ^ k" by (rule powr_realpow) simp
  with assms have "2 powr real k \<le> x" by simp
  then have "real k \<le> log 2 x"
    using pos by (simp only: le_log_iff [of 2 x, simplified])
  then show ?thesis by (simp add: le_floor_iff)
qed

lemma two_powr_nonpos:
  assumes "k \<le> 0"
  shows "(2::real) powr of_int k = 1 / 2 ^ nat (- k)"
  using assms by (cases "k = 0") (simp_all add: two_powr_int)

lemma round_even_nonneg:
  assumes "0 \<le> y"
  shows "0 \<le> round_even y"
  using round_even_ge [of 0 y] assms by simp

lemma quantum_pos: "0 < quantum x"
  by (simp add: quantum_def)

lemma nearest_nonneg: "0 \<le> nearest x"
proof -
  have "0 \<le> round_even (\<bar>x\<bar> / quantum x)"
    using quantum_pos [of x] by (intro round_even_nonneg) simp
  then show ?thesis
    using quantum_pos [of x] by (simp add: nearest_def)
qed

text \<open>Below \<open>2 ^ 53\<close> the spacing of the doubles is one over a power of two.\<close>

lemma quantum_small:
  assumes "0 < x" and "x < 2 ^ 53"
  shows "\<exists>k. quantum x = 1 / 2 ^ k"
proof -
  define e where "e = max \<lfloor>log 2 x\<rfloor> (- 1022)"
  have "x < 2 ^ Suc 52" using assms(2) by simp
  then have "\<lfloor>log 2 x\<rfloor> \<le> 52" using floor_log2_le [of x 52] assms(1) by simp
  then have hi: "e - 52 \<le> 0" by (simp add: e_def)
  have "quantum x = 2 powr of_int (e - 52)"
    using assms(1) by (simp add: quantum_def e_def abs_of_pos)
  also have "\<dots> = 1 / 2 ^ nat (- (e - 52))" using hi by (rule two_powr_nonpos)
  finally show ?thesis by blast
qed

text \<open>Rounding does not cross a natural number below \<open>2 ^ 53\<close>.\<close>

lemma nearest_le_nat:
  assumes "0 < x" and "x \<le> real n" and "real n < 2 ^ 53"
  shows "nearest x \<le> real n"
proof -
  from quantum_small [of x] assms obtain k where q: "quantum x = 1 / 2 ^ k" by force
  have "x / (1 / 2 ^ k) \<le> of_int (int n * 2 ^ k)"
    using assms(2) by (simp add: mult_right_mono)
  then have "round_even (x / (1 / 2 ^ k)) \<le> int n * 2 ^ k"
    by (rule round_even_le)
  then have "real_of_int (round_even (x / (1 / 2 ^ k))) \<le> real_of_int (int n * 2 ^ k)"
    by (simp only: of_int_le_iff)
  then have "of_int (round_even (x / (1 / 2 ^ k))) * (1 / 2 ^ k) \<le> real n"
    by (simp add: field_simps)
  then show ?thesis
    using assms(1) by (simp only: nearest_def q abs_of_pos)
qed

lemma nearest_ge_nat:
  assumes "real n \<le> x" and "x < 2 ^ 53"
  shows "real n \<le> nearest x"
proof (cases "n = 0")
  case True
  then show ?thesis by (simp add: nearest_nonneg)
next
  case False
  then have pos: "0 < x" using assms(1) by (smt (verit) of_nat_0_less_iff neq0_conv)
  from quantum_small [OF pos assms(2)] obtain k where q: "quantum x = 1 / 2 ^ k" by blast
  have "of_int (int n * 2 ^ k) \<le> x / (1 / 2 ^ k)"
    using assms(1) by (simp add: mult_right_mono)
  then have "int n * 2 ^ k \<le> round_even (x / (1 / 2 ^ k))"
    by (rule round_even_ge)
  then have "real_of_int (int n * 2 ^ k) \<le> real_of_int (round_even (x / (1 / 2 ^ k)))"
    by (simp only: of_int_le_iff)
  then have "real n \<le> of_int (round_even (x / (1 / 2 ^ k))) * (1 / 2 ^ k)"
    by (simp add: field_simps)
  then show ?thesis
    using pos by (simp only: nearest_def q abs_of_pos)
qed

text \<open>A natural number below \<open>2 ^ 53\<close> is a double: rounding leaves it as it is.\<close>

lemma nearest_nat:
  assumes "real n < 2 ^ 53"
  shows "nearest (real n) = real n"
proof (cases "n = 0")
  case True
  have "round_even 0 = 0" using round_even_int [of 0] by simp
  with True show ?thesis by (simp add: nearest_def)
next
  case False
  then have "0 < real n" by simp
  from nearest_le_nat [OF this order_refl assms] nearest_ge_nat [OF order_refl assms]
  show ?thesis by simp
qed

text \<open>Nor does rounding cross a power of two.\<close>

lemma nearest_ge_pow2:
  assumes "2 ^ k \<le> x"
  shows "2 ^ k \<le> nearest x"
proof -
  have pos: "0 < x" using assms by (smt (verit) zero_less_power)
  define e where "e = \<lfloor>log 2 x\<rfloor>"
  have ek: "int k \<le> e" unfolding e_def using assms by (rule floor_log2_ge)
  then have m: "max e (- 1022) = e" by simp
  define q where "q = (2::real) powr (of_int e - 52)"
  have qx: "quantum x = q"
    using pos by (simp add: quantum_def abs_of_pos e_def [symmetric] m q_def)
  have qpos: "0 < q" by (simp add: q_def)
  have "of_int e \<le> log 2 x" by (simp add: e_def)
  then have below: "2 powr of_int e \<le> x"
    using pos by (simp only: le_log_iff [of 2 x, simplified])
  have "(2::real) powr of_int e = 2 powr (52 + (of_int e - 52))" by simp
  also have "\<dots> = 2 powr 52 * q" unfolding q_def by (rule powr_add)
  finally have split: "(2::real) powr of_int e = 2 powr 52 * q" .
  have p52: "(2::real) powr 52 = of_int (2 ^ 52)"
    using powr_realpow [of 2 52] by simp
  have "2 powr 52 * q \<le> x" using below by (simp only: split)
  then have "2 powr 52 \<le> x / q" using qpos by (simp only: pos_le_divide_eq)
  then have "of_int (2 ^ 52) \<le> x / q" by (simp only: p52)
  then have "2 ^ 52 \<le> round_even (x / q)" by (rule round_even_ge)
  then have "real_of_int (2 ^ 52) \<le> real_of_int (round_even (x / q))"
    by (simp only: of_int_le_iff)
  then have "2 powr 52 \<le> real_of_int (round_even (x / q))" by (simp only: p52)
  then have "2 powr 52 * q \<le> of_int (round_even (x / q)) * q"
    using qpos by (simp only: mult_le_cancel_right_pos)
  then have r: "2 powr of_int e \<le> nearest x"
    using pos by (simp only: split nearest_def qx abs_of_pos)
  have "(2::real) ^ k = 2 powr real k" using powr_realpow [of 2 k] by simp
  also have "\<dots> \<le> 2 powr of_int e"
  proof -
    have "real k \<le> real_of_int e" using ek by linarith
    then show ?thesis by (intro powr_mono) simp_all
  qed
  finally show ?thesis using r by linarith
qed

lemma fl_nat:
  assumes "real n < 2 ^ 53"
  shows "fl (real n) = Fin (real n)"
proof -
  have "real n < 2 ^ 1024"
    using assms by (rule less_le_trans) (rule power_increasing, simp_all)
  then show ?thesis
    by (simp add: fl_def nearest_nat [OF assms])
qed

lemma fl_overflow:
  assumes "2 ^ 1024 \<le> x"
  shows "fl x = PosInf"
proof -
  have pos: "0 < x" using assms by (smt (verit) zero_less_power)
  from nearest_ge_pow2 [OF assms] pos show ?thesis
    by (simp add: fl_def)
qed

text \<open>Comparisons of a rounded number with a natural number, and with a power of two.\<close>

lemma fl_not_gt_nat:
  assumes "x \<le> real n" and "real n < 2 ^ 53"
  shows "\<not> js_gt (fl x) (Fin (real n))"
proof -
  consider "x = 0" | "x < 0" | "0 < x" by linarith
  then show ?thesis
  proof cases
    case 1
    then show ?thesis by (simp add: fl_def)
  next
    case 2
    have "- nearest x \<le> real n"
      using nearest_nonneg [of x] by (smt (verit) of_nat_0_le_iff)
    then show ?thesis
      using 2 by (simp add: fl_def)
  next
    case 3
    have "real n < 2 ^ 1024"
      using assms(2) by (rule less_le_trans) (rule power_increasing, simp_all)
    with nearest_le_nat [OF 3 assms] have "\<not> 2 ^ 1024 \<le> nearest x" by linarith
    with nearest_le_nat [OF 3 assms] 3 show ?thesis
      by (simp add: fl_def)
  qed
qed

lemma fl_gt_below_pow2:
  assumes "2 ^ k \<le> x" and "c < 2 ^ k"
  shows "js_gt (fl x) (Fin c)"
proof -
  have pos: "0 < x" using assms(1) by (smt (verit) zero_less_power)
  from nearest_ge_pow2 [OF assms(1)] assms(2) have "c < nearest x" by linarith
  then show ?thesis
    using pos by (simp add: fl_def)
qed

text \<open>The numbers of the examples are doubles.\<close>

lemma fl_0: "fl 0 = Fin 0"
  by (simp add: fl_def)

lemma fl_1: "fl 1 = Fin 1"
  using fl_nat [of 1] by simp

lemma fl_numeral:
  assumes "(numeral k :: real) < 2 ^ 53"
  shows "fl (numeral k) = Fin (numeral k)"
  using fl_nat [of "numeral k"] assms by simp

lemma quantum_minus: "quantum (- x) = quantum x"
  by (simp add: quantum_def)

lemma nearest_minus: "nearest (- x) = nearest x"
  by (simp add: nearest_def quantum_minus)

lemma fl_minus: "fl (- x) = js_neg (fl x)"
  by (simp add: fl_def nearest_minus)

text \<open>
  The test \<^verbatim>\<open>dist > 10\<close> on the rounded square root: false up to 100, true from 256 on. (In
  between, the rounding of the root decides.)
\<close>

lemma near_sqrt:
  assumes "x \<le> 100"
  shows "\<not> js_gt (fl (sqrt x)) (Fin 10)"
proof -
  have "sqrt x \<le> sqrt 100" using assms by (simp only: real_sqrt_le_iff)
  then have "sqrt x \<le> real 10" by simp
  from fl_not_gt_nat [OF this] show ?thesis by simp
qed

lemma far_sqrt:
  assumes "256 \<le> x"
  shows "js_gt (fl (sqrt x)) (Fin 10)"
proof -
  have "sqrt 256 \<le> sqrt x" using assms by (simp only: real_sqrt_le_iff)
  moreover have "sqrt 256 = 16" using real_sqrt_abs2 [of 16] by simp
  ultimately have "2 ^ 4 \<le> sqrt x" by simp
  from fl_gt_below_pow2 [OF this, of 10] show ?thesis by simp
qed

text \<open>
  Rounding at work: a sum that exceeds 100 by no more than a quarter of the spacing of the
  doubles there is 100, and a square of at most \<open>2 ^ - 48\<close> is that small.
\<close>

lemma floor_log2_eq:
  assumes "2 ^ k \<le> x" and "x < 2 ^ Suc k"
  shows "\<lfloor>log 2 x\<rfloor> = int k"
proof -
  have pos: "0 < x" using assms(1) by (smt (verit) zero_less_power)
  from floor_log2_ge [OF assms(1)] floor_log2_le [OF pos assms(2)] show ?thesis by simp
qed

lemma quantum_binade:
  assumes "2 ^ k \<le> x" and "x < 2 ^ Suc k"
  shows "quantum x = 2 powr (real k - 52)"
proof -
  have pos: "0 < x" using assms(1) by (smt (verit) zero_less_power)
  show ?thesis
    using pos by (simp add: quantum_def abs_of_pos floor_log2_eq [OF assms])
qed

lemma hundred_and_a_bit:
  assumes "0 \<le> t" and "t * 2 ^ 46 \<le> 1 / 4"
  shows "fl (100 + t) = Fin 100"
proof -
  have "t * 1 \<le> t * 2 ^ 46" using assms(1) by (intro mult_left_mono) simp_all
  with assms(2) have t1: "t < 1" by linarith
  have q: "quantum (100 + t) = 1 / 2 ^ 46"
  proof -
    have "quantum (100 + t) = 2 powr (real 6 - 52)"
      using assms(1) t1 by (intro quantum_binade) simp_all
    also have "\<dots> = 2 powr of_int (- 46)" by simp
    also have "\<dots> = 1 / 2 ^ nat (- (- 46))" by (rule two_powr_nonpos) simp
    finally show ?thesis by simp
  qed
  define u where "u = t * 2 ^ 46"
  have u: "0 \<le> u" "u \<le> 1 / 4" using assms by (simp_all add: u_def)
  have eq: "(100 + t) / (1 / 2 ^ 46) = of_int (100 * 2 ^ 46) + u"
    by (simp add: u_def field_simps)
  have fl: "\<lfloor>of_int (100 * 2 ^ 46) + u\<rfloor> = 100 * 2 ^ 46"
    using u by (intro floor_unique) linarith+
  have "round_even (of_int (100 * 2 ^ 46) + u) = 100 * 2 ^ 46"
    unfolding round_even_def Let_def fl using u by simp
  then have "round_even ((100 + t) / (1 / 2 ^ 46)) = 100 * 2 ^ 46"
    by (simp only: eq)
  then have "nearest (100 + t) = of_int (100 * 2 ^ 46) * (1 / 2 ^ 46)"
    using assms(1) by (simp only: nearest_def q abs_of_nonneg)
  then have "nearest (100 + t) = 100" by simp
  then show ?thesis
    using assms(1) by (simp add: fl_def)
qed

lemma floor_log2_le_neg:
  assumes "0 < x" and "x \<le> 1 / 2 ^ k"
  shows "\<lfloor>log 2 x\<rfloor> \<le> - int k"
proof -
  have "(2::real) powr (- real k) = 1 / 2 ^ k"
    by (simp add: powr_minus powr_realpow divide_inverse)
  with assms(2) have "x \<le> 2 powr (- real k)" by simp
  then have "log 2 x \<le> - real k"
    using assms(1) by (simp only: log_le_iff [of 2 x, simplified])
  then have "log 2 x \<le> real_of_int (- int k)" by simp
  then show ?thesis by (simp only: floor_le_iff)
qed

lemma small_square:
  assumes "0 < x" and "x \<le> 1 / 2 ^ 48"
  shows "nearest x \<le> 1 / 2 ^ 48"
proof -
  define e where "e = max \<lfloor>log 2 x\<rfloor> (- 1022)"
  have hi: "e \<le> - 48"
    unfolding e_def using floor_log2_le_neg [OF assms, simplified] by simp
  define j where "j = nat (- e - 48 + 52)"
  have q: "quantum x = 2 powr of_int (e - 52)"
    using assms(1) by (simp add: quantum_def e_def abs_of_pos)
  have "e - 52 \<le> 0" using hi by simp
  from two_powr_nonpos [OF this] have q': "quantum x = 1 / 2 ^ nat (52 - e)"
    by (simp add: q)
  have split: "nat (52 - e) = 48 + j" using hi by (simp add: j_def)
  have "x / (1 / 2 ^ nat (52 - e)) \<le> (1 / 2 ^ 48) / (1 / 2 ^ nat (52 - e))"
    using assms(2) by (intro divide_right_mono) simp_all
  also have "\<dots> = of_int (2 ^ j)"
    by (simp add: split power_add)
  finally have "round_even (x / (1 / 2 ^ nat (52 - e))) \<le> 2 ^ j"
    by (rule round_even_le)
  then have "real_of_int (round_even (x / (1 / 2 ^ nat (52 - e)))) \<le> real_of_int (2 ^ j)"
    by (simp only: of_int_le_iff)
  then have "real_of_int (round_even (x / (1 / 2 ^ nat (52 - e)))) / 2 ^ nat (52 - e)
               \<le> real_of_int (2 ^ j) / 2 ^ nat (52 - e)"
    by (intro divide_right_mono) simp_all
  also have "real_of_int (2 ^ j) / 2 ^ nat (52 - e) = 1 / 2 ^ 48"
    by (simp add: split power_add)
  finally have "real_of_int (round_even (x / (1 / 2 ^ nat (52 - e)))) * (1 / 2 ^ nat (52 - e))
                  \<le> 1 / 2 ^ 48"
    by simp
  then show ?thesis
    using assms(1) by (simp only: nearest_def q' abs_of_pos)
qed

lemma fl_small_square:
  assumes "\<bar>y\<bar> \<le> 1 / 2 ^ 24"
  shows "\<exists>t. fl (y * y) = Fin t \<and> 0 \<le> t \<and> t * 2 ^ 46 \<le> 1 / 4"
proof (cases "y = 0")
  case True
  then show ?thesis by (simp add: fl_def)
next
  case False
  then have pos: "0 < y * y" by (simp add: zero_less_mult_iff) (metis linorder_neqE_linordered_idom)
  have "y * y = \<bar>y\<bar> * \<bar>y\<bar>" by simp
  also have "\<dots> \<le> (1 / 2 ^ 24) * (1 / 2 ^ 24)"
    using assms by (intro mult_mono) simp_all
  also have "\<dots> = 1 / 2 ^ 48" by simp
  finally have le: "y * y \<le> 1 / 2 ^ 48" .
  from small_square [OF pos le] have n: "nearest (y * y) \<le> 1 / 2 ^ 48" .
  then have "\<not> 2 ^ 1024 \<le> nearest (y * y)" by simp
  moreover have "nearest (y * y) * 2 ^ 46 \<le> 1 / 4"
    using n by (simp add: field_simps)
  ultimately show ?thesis
    using pos nearest_nonneg [of "y * y"] by (simp add: fl_def)
qed

text \<open>A negative power of two, down to \<open>2 ^ - 1022\<close>, is a double.\<close>

lemma fl_pow2_neg:
  assumes "k \<le> 1022"
  shows "fl (1 / 2 ^ k) = Fin (1 / 2 ^ k)"
proof -
  define x :: real where "x = 1 / 2 ^ k"
  have pos: "0 < x" by (simp add: x_def)
  have p: "(2::real) powr (- real k) = x"
    by (simp add: x_def powr_minus powr_realpow divide_inverse)
  then have "2 powr real_of_int (- int k) \<le> x" by simp
  then have "real_of_int (- int k) \<le> log 2 x"
    using pos by (simp only: le_log_iff [of 2 x, simplified])
  then have "- int k \<le> \<lfloor>log 2 x\<rfloor>" by (simp only: le_floor_iff)
  moreover have "\<lfloor>log 2 x\<rfloor> \<le> - int k"
    using floor_log2_le_neg [OF pos] by (simp add: x_def)
  ultimately have e: "\<lfloor>log 2 x\<rfloor> = - int k" by simp
  have m: "max (- int k) (- 1022) = - int k" using assms by simp
  have "quantum x = 2 powr of_int (- int k - 52)"
    using pos by (simp add: quantum_def abs_of_pos e m)
  also have "\<dots> = 1 / 2 ^ nat (- (- int k - 52))"
    by (rule two_powr_nonpos) simp
  also have "nat (- (- int k - 52)) = k + 52" by simp
  finally have q: "quantum x = 1 / 2 ^ (k + 52)" .
  have "x / (1 / 2 ^ (k + 52)) = of_int (2 ^ 52)"
    by (simp add: x_def power_add)
  then have "round_even (x / (1 / 2 ^ (k + 52))) = 2 ^ 52"
    by (simp only: round_even_int)
  then have "nearest x = real_of_int (2 ^ 52) * (1 / 2 ^ (k + 52))"
    using pos by (simp only: nearest_def q abs_of_pos)
  also have "\<dots> = x" by (simp add: x_def power_add)
  finally have n: "nearest x = x" .
  have "x \<le> 1" by (simp add: x_def)
  then have "\<not> 2 ^ 1024 \<le> x" by simp
  then show ?thesis
    using pos n by (simp add: fl_def x_def [symmetric])
qed

section \<open>Facts about the sanitizer\<close>

lemma slice_from_0: "slice s 0 (int n) = take n s"
  by (simp add: slice_def Let_def min_def)

lemma run_re_Lit_miss:
  assumes "\<not> (i < length s \<and> same_char ic (s ! i) c)"
  shows "run_re ic s (Seq (Lit c) r) (i, cs) = []"
  using assms by (auto simp: run_re.simps(1,7))

lemma run_re_Seq_miss:
  assumes "run_re ic s r1 (i, cs) = []"
  shows "run_re ic s (Seq r1 r2) (i, cs) = []"
  using assms by (simp add: run_re.simps(7))

lemma run_re_Cls_miss:
  assumes "\<not> (i < length s \<and> in_class ic neg rs (s ! i))"
  shows "run_re ic s (Seq (Cls neg rs) r) (i, cs) = []"
  using assms by (auto simp: run_re.simps(2,7))

text \<open>Where the expression matches nowhere, replacing leaves the text as it is.\<close>

lemma replace_from_no_match:
  assumes "\<forall>j. match_at ic r s j = None"
  shows "replace_from ic r rep s i = drop i s"
proof (induction "length s - i" arbitrary: i)
  case 0
  then show ?case
    using assms by (subst replace_from.simps) simp
next
  case (Suc n)
  then have i: "i < length s" by simp
  have "n = length s - Suc i" using Suc.hyps(2) by simp
  from Suc.hyps(1) [OF this] have "replace_from ic r rep s (Suc i) = drop (Suc i) s" .
  then show ?case
    using assms i by (subst replace_from.simps) (simp add: Cons_nth_drop_Suc)
qed

lemma fenced_re_miss:
  assumes "bt \<notin> set s"
  shows "match_at False fenced_re s j = None"
proof -
  have "\<not> (j < length s \<and> same_char False (s ! j) bt)"
    using assms by (auto simp: same_char_def in_set_conv_nth)
  then have "run_re False s (lits fence) (j, []) = []"
    by (simp add: lits_def fence_def run_re_Lit_miss)
  then show ?thesis
    by (simp add: match_at_def fenced_re_def seqs_def run_re_Seq_miss)
qed

lemma braces_re_miss:
  assumes "CHR ''{'' \<notin> set s"
  shows "match_at False braces_re s j = None"
proof -
  have "\<not> (j < length s \<and> same_char False (s ! j) (CHR ''{''))"
    using assms by (auto simp: same_char_def in_set_conv_nth)
  then show ?thesis
    by (simp add: match_at_def braces_re_def seqs_def run_re_Lit_miss)
qed

lemma space_class: "in_class False False space_ranges c = is_space c"
  by (auto simp: in_class_def in_ranges_def is_space_def space_ranges_def Let_def)

lemma spaces_re_miss:
  assumes "\<forall>c\<in>set s. \<not> is_space c"
  shows "match_at False spaces_re s j = None"
proof -
  have "\<not> (j < length s \<and> in_class False False space_ranges (s ! j))"
    using assms by (simp add: space_class)
  then show ?thesis
    by (simp add: match_at_def spaces_re_def Plus_def space_def run_re_Cls_miss)
qed

lemma dropWhile_none:
  assumes "\<forall>c\<in>set s. \<not> P c"
  shows "dropWhile P s = s"
  using assms by (cases s) auto

lemma trim_plain:
  assumes "\<forall>c\<in>set s. \<not> is_space c"
  shows "trim s = s"
proof -
  have "\<forall>c\<in>set (rev s). \<not> is_space c"
    using assms by simp
  then show ?thesis
    using assms by (simp add: trim_def dropWhile_none)
qed

text \<open>A text without backtick, opening brace and white space is already clean.\<close>

lemma clean_reply_plain:
  assumes "bt \<notin> set s" and "CHR ''{'' \<notin> set s" and "\<forall>c\<in>set s. \<not> is_space c"
  shows "clean_reply s = s"
  using assms
  by (simp add: clean_reply_def replace_all_def replace_from_no_match fenced_re_miss
      braces_re_miss spaces_re_miss trim_plain)

text \<open>
  C9. On a string \<^verbatim>\<open>sanitizeLLMReplyForChat\<close> is a function of its argument alone, with no
  step that can throw. Its result is never longer than 240 characters. When the cleaned text
  is longer than 240 (and is not the unwanted preamble) the result is its first 237
  characters followed by three dots. The empty reply gives the empty text.
\<close>

theorem sanitizer_bound:
  "length (sanitizeLLMReplyForChat reply) \<le> 240
   \<and> (reply \<noteq> [] \<and> 240 < length (clean_reply reply)
        \<and> \<not> startsWith (clean_reply reply) ''\"Alright, let'' \<longrightarrow>
       sanitizeLLMReplyForChat reply = take 237 (clean_reply reply) @ ''...'')
   \<and> sanitizeLLMReplyForChat [] = []"
  using slice_from_0 [of "clean_reply reply" 237]
  by (auto simp: sanitizeLLMReplyForChat_def Let_def)

theorem sanitizer_bound_witness:
  "sanitizeLLMReplyForChat (replicate 500 (CHR ''a'')) = replicate 237 (CHR ''a'') @ ''...''
   \<and> length (sanitizeLLMReplyForChat (replicate 500 (CHR ''a''))) = 240"
proof -
  have "clean_reply (replicate 500 (CHR ''a'')) = replicate 500 (CHR ''a'')"
    by (rule clean_reply_plain) (simp_all add: bt_def is_space_def)
  then show ?thesis
    using sanitizer_bound [of "replicate 500 (CHR ''a'')"]
    by (simp add: startsWith_def)
qed

section \<open>Facts about extraction\<close>

lemma startsWith_append: "startsWith (p @ rest) p"
  by (simp add: startsWith_def)

lemma take_before_last:
  assumes "p \<noteq> []" and "v \<noteq> []"
  shows "take (length p) (v @ p @ rest) = take (length p) (v @ butlast p)"
proof -
  have split: "v @ p @ rest = (v @ butlast p) @ (last p # rest)"
    using assms(1) by simp
  have long: "length p \<le> length (v @ butlast p)"
    using assms(2) by (cases v) simp_all
  have "take (length p) (v @ p @ rest) = take (length p) ((v @ butlast p) @ (last p # rest))"
    by (subst split) (rule refl)
  also have "\<dots> = take (length p) (v @ butlast p)"
    using long by simp
  finally show ?thesis .
qed

text \<open>The search finds the first occurrence: no earlier one means none that starts in \<open>u\<close>.\<close>

lemma index_from_first:
  assumes "p \<noteq> []" and "\<not> str_includes (u @ butlast p) p"
  shows "index_from p (u @ p @ rest) i = Some (i + length u)"
  using assms(2)
proof (induction u arbitrary: i)
  case Nil
  obtain c cs where "p @ rest = c # cs"
    using assms(1) by (cases "p @ rest") auto
  then show ?case
    using startsWith_append [of p rest] by simp
next
  case (Cons x u)
  from Cons.prems have miss: "\<not> startsWith (x # u @ butlast p) p"
    and rest: "\<not> str_includes (u @ butlast p) p"
    by simp_all
  have "take (length p) ((x # u) @ p @ rest) = take (length p) ((x # u) @ butlast p)"
    by (rule take_before_last [OF assms(1)]) simp
  with miss have "\<not> startsWith (x # u @ p @ rest) p"
    by (simp add: startsWith_def)
  with Cons.IH [OF rest, of "Suc i"] show ?case
    by simp
qed

lemma indexOf_first:
  assumes "p \<noteq> []" and "\<not> str_includes (u @ butlast p) p"
  shows "indexOf (a @ u @ p @ rest) p (int (length a)) = int (length a + length u)"
  using index_from_first [OF assms, of rest "length a"]
  by (simp add: indexOf_def Let_def)

lemma slice_middle: "slice (a @ b @ c) (int (length a)) (int (length a + length b)) = b"
  by (simp add: slice_def Let_def)

lemma fence_json_length: "length fence_json = 7" "fence_json \<noteq> []" "fence \<noteq> []"
  by (simp_all add: fence_json_def fence_def)

text \<open>
  A text whose first \<^verbatim>\<open>```json\<close> marker is followed by \<open>body\<close> and the next \<^verbatim>\<open>```\<close>: the first
  strategy parses the trimmed body.
\<close>

lemma fenced_json_body:
  assumes "\<not> str_includes (pre @ butlast fence_json) fence_json"
    and "\<not> str_includes (body @ butlast fence) fence"
  shows "fenced_json pick (pre @ fence_json @ body @ fence @ post) = try_json pick (trim body)"
proof -
  let ?text = "pre @ fence_json @ body @ fence @ post"
  have start: "indexOf ?text fence_json 0 = int (length pre)"
    using indexOf_first [OF fence_json_length(2) assms(1), of "[]" "body @ fence @ post"]
    by simp
  have "indexOf ((pre @ fence_json) @ body @ fence @ post) fence (int (length (pre @ fence_json)))
          = int (length (pre @ fence_json) + length body)"
    by (rule indexOf_first [OF fence_json_length(3) assms(2)])
  then have stop: "indexOf ?text fence (int (length pre) + 7) = int (length pre + 7 + length body)"
    by (simp add: fence_json_length(1) add.commute)
  have "slice ((pre @ fence_json) @ body @ fence @ post) (int (length (pre @ fence_json)))
          (int (length (pre @ fence_json) + length body)) = body"
    by (rule slice_middle)
  then have cut: "slice ?text (int (length pre) + 7) (int (length pre + 7 + length body)) = body"
    by (simp add: fence_json_length(1) add.commute)
  show ?thesis
    by (simp add: fenced_json_def start stop cut Let_def del: of_nat_add)
qed

lemma plan_in_found:
  assumes "get_prop obj ''plan'' = Inr plan" and "get_prop plan ''steps'' = Inr (JArr steps)"
  shows "plan_in obj = Inr (Some plan)"
proof -
  have "truthy plan"
    using assms(2) by (cases plan) (auto split: if_splits)
  moreover have "truthy obj"
    using assms by (cases obj) (auto split: if_splits option.splits)
  ultimately show ?thesis
    using assms by (simp add: plan_in_def bindE_def)
qed

lemma actions_in_found:
  assumes "get_prop obj ''actions'' = Inr (JArr acts)"
  shows "actions_in obj = Inr (Some (JArr acts))"
proof -
  have "truthy obj"
    using assms by (cases obj) (auto split: if_splits)
  then show ?thesis
    using assms by (simp add: actions_in_def bindE_def)
qed

text \<open>
  C7 (as amended). Let the first \<^verbatim>\<open>```json\<close> marker of a text open a block that the next
  \<^verbatim>\<open>```\<close> closes, and let the trimmed content of the block be JSON for an object \<open>obj\<close>. If
  \<open>obj.plan.steps\<close> is an array, \<^verbatim>\<open>parsePlanFromReply\<close> returns \<open>obj.plan\<close>; if \<open>obj.actions\<close> is
  a non-empty array, the extraction of \<^verbatim>\<open>gptPlanAndExecute\<close> returns it. What stands before
  and after the block, directive lines included, contributes nothing.
\<close>

theorem fenced_block_wins:
  assumes "\<not> str_includes (pre @ butlast fence_json) fence_json"
    and "\<not> str_includes (body @ butlast fence) fence"
    and "JSON_parse (trim body) = Inr obj"
  shows "(get_prop obj ''plan'' = Inr plan \<and> get_prop plan ''steps'' = Inr (JArr steps) \<longrightarrow>
            parsePlanFromReply (pre @ fence_json @ body @ fence @ post) = Inr plan)
       \<and> (get_prop obj ''actions'' = Inr (JArr acts) \<and> acts \<noteq> [] \<longrightarrow>
            message_actions (pre @ fence_json @ body @ fence @ post) = Inr acts)"
proof -
  define reply where "reply = pre @ fence_json @ body @ fence @ post"
  have nonempty: "reply \<noteq> []"
    using fence_json_length(2) by (simp add: reply_def)
  have fenced: "fenced_json pick reply = try_json pick (trim body)" for pick
    unfolding reply_def by (rule fenced_json_body [OF assms(1,2)])
  have "parsePlanFromReply reply = Inr plan"
    if "get_prop obj ''plan'' = Inr plan" "get_prop plan ''steps'' = Inr (JArr steps)"
    using plan_in_found [OF that] assms(3) nonempty
    by (simp add: parsePlanFromReply_def fenced try_json_def try_catch_def bindE_def)
  moreover have "message_actions reply = Inr acts"
    if "get_prop obj ''actions'' = Inr (JArr acts)" "acts \<noteq> []"
    using actions_in_found [OF that(1)] assms(3) nonempty that(2)
    by (simp add: message_actions_def parseJsonActionsFromReply_def fenced try_json_def
        try_catch_def bindE_def)
  ultimately show ?thesis
    unfolding reply_def by blast
qed

lemmas lex_eval = lex_def lex_idle_def json_space_def punct_def flush_word_def
      json_number_def unsigned_decimal_def exponent_part_def is_digit_def decimal_def
      digits_val_def digit_val_def Let_def

lemma lex_example_json:
  "lex example_json = Some [TLBrace, TStr ''plan'', TColon, TLBrace, TStr ''steps'', TColon, TLBrack,
     TLBrace, TStr ''name'', TColon, TStr ''inspect'', TComma, TStr ''params'', TColon, TLBrace,
     TStr ''x'', TColon, TAtom (JNum (Fin 1)), TComma, TStr ''y'', TColon, TAtom (JNum (Fin 2)), TComma,
     TStr ''z'', TColon, TAtom (JNum (Fin 3)), TRBrace, TRBrace, TRBrack, TRBrace, TRBrace]"
  by (simp add: example_json_def lex_eval fl_1 fl_numeral)

lemma JSON_parse_example_json:
  "JSON_parse example_json
     = Inr (JObj [(''plan'', JObj [(''steps'', JArr [step ''inspect'' (Fin 1) (Fin 2) (Fin 3)])])])"
  by (simp add: JSON_parse_def lex_example_json members_def step_def)

lemma trim_example_body: "trim example_body = example_json"
  by (simp add: trim_def is_space_def example_body_def example_json_def)

lemma example_body_no_fence: "\<not> str_includes (example_body @ butlast fence) fence"
  by (simp add: example_body_def example_json_def fence_def bt_def startsWith_def)

lemma no_early_fence_json: "\<not> str_includes ([] @ butlast fence_json) fence_json"
  by (simp add: fence_json_def fence_def bt_def startsWith_def)

theorem fenced_block_wins_witness:
  "parsePlanFromReply example_text
     = Inr (JObj [(''steps'', JArr [step ''inspect'' (Fin 1) (Fin 2) (Fin 3)])])"
  using fenced_block_wins [OF no_early_fence_json example_body_no_fence,
      where obj = "JObj [(''plan'', JObj [(''steps'', JArr [step ''inspect'' (Fin 1) (Fin 2) (Fin 3)])])]"
        and plan = "JObj [(''steps'', JArr [step ''inspect'' (Fin 1) (Fin 2) (Fin 3)])]"
        and steps = "[step ''inspect'' (Fin 1) (Fin 2) (Fin 3)]"
        and post = "[CHR 0x0A] @ ''//dig(x=5,y=5,z=5)''"]
  by (simp add: trim_example_body JSON_parse_example_json example_text_def step_def)

text \<open>
  An empty \<^verbatim>\<open>```json\<close> block, a directive line that quotes a plan, then a valid fenced plan:
  the first strategy fails on the empty block, and the second takes the first \<^verbatim>\<open>"plan"\<close> key
  of the text, which is the directive line's.
\<close>

lemma two_fences_first_strategy: "fenced_json plan_in two_fences_text = Inr None"
proof -
  have "\<not> str_includes ([] @ butlast fence) fence"
    by (simp add: fence_def bt_def startsWith_def)
  from fenced_json_body [OF no_early_fence_json this] show ?thesis
    by (simp add: two_fences_text_def try_json_def try_catch_def bindE_def JSON_parse_def lex_def trim_def)
qed

lemma two_fences_key: "indexOf two_fences_text ''\"plan\"'' 0 = 16"
proof -
  have "\<not> str_includes ((fence_json @ fence @ [CHR 0x0A] @ ''//x({'') @ butlast ''\"plan\"'') ''\"plan\"''"
    by (simp add: fence_json_def fence_def bt_def startsWith_def)
  from indexOf_first [OF _ this, of "[]"] show ?thesis
    by (simp add: two_fences_text_def directive_json_def fence_json_def fence_def)
qed

lemma two_fences_brace: "lastIndexOf two_fences_text ''{'' 16 = 15"
  by code_simp

lemma two_fences_end: "brace_end (drop 15 two_fences_text) 0 15 = Some 49"
  by (simp add: two_fences_text_def directive_json_def fence_json_def fence_def bt_def)

lemma two_fences_slice: "slice two_fences_text 15 50 = directive_json"
  by (simp add: slice_def two_fences_text_def directive_json_def fence_json_def fence_def Let_def)

lemma JSON_parse_directive_json:
  "JSON_parse directive_json
     = Inr (JObj [(''plan'', JObj [(''steps'', JArr [JObj [(''name'', JStr ''dig'')]])])])"
  by (simp add: JSON_parse_def directive_json_def lex_eval members_def)

theorem two_fences_counterexample:
  "parsePlanFromReply two_fences_text = Inr (JObj [(''steps'', JArr [JObj [(''name'', JStr ''dig'')]])])"
proof -
  have "two_fences_text \<noteq> []"
    by (simp add: two_fences_text_def fence_json_def)
  moreover have "inline_json ''\"plan\"'' plan_in two_fences_text
      = Inr (Some (JObj [(''steps'', JArr [JObj [(''name'', JStr ''dig'')]])]))"
    by (simp add: inline_json_def two_fences_key two_fences_brace two_fences_end two_fences_slice
        try_json_def try_catch_def bindE_def JSON_parse_directive_json plan_in_def Let_def)
  ultimately show ?thesis
    by (simp add: parsePlanFromReply_def two_fences_first_strategy bindE_def)
qed

section \<open>Facts about what the extraction functions can throw\<close>

subsection \<open>Parsed text without an inner closing brace\<close>







lemma plain_props_simps [simp]:
  "plain_props []"
  "plain_props ((k, v) # kvs) = (plain v \<and> plain_props kvs)"
  "plain_props (kvs @ kvs') = (plain_props kvs \<and> plain_props kvs')"
  "plain_props (rev kvs) = plain_props kvs"
  by (simp_all add: plain_props_def)











subsection \<open>What the lazy braced group captures\<close>

lemma upper_char_brace [simp]:
  "(upper_char c = CHR ''}'') = (c = CHR ''}'')" "(upper_char c = CHR ''{'') = (c = CHR ''{'')"
  "upper_char (CHR ''}'') = CHR ''}''" "upper_char (CHR ''{'') = CHR ''{''"
  by (cases c; auto simp: Let_def)+

lemma same_char_brace [simp]:
  "same_char ic c (CHR ''}'') = (c = CHR ''}'')" "same_char ic c (CHR ''{'') = (c = CHR ''{'')"
  by (simp_all add: same_char_def)

lemma any_char_matches [simp]: "in_class ic True [] c"
  by (simp add: in_class_def in_ranges_def)


lemma groups_any_char [simp]: "groups any_char = []"
  by (simp add: any_char_def)
















subsection \<open>The four extraction functions\<close>
























lemma index_from_empty: "p \<noteq> [] \<Longrightarrow> index_from p [] i = None"
  by simp




section \<open>Facts about plan execution\<close>

lemma bindS_ret [simp]: "bindS (ret x) f w = f x w"
  by (simp add: bindS_def ret_def)

lemma bindS_liftE_Inr [simp]: "bindS (liftE (Inr x)) f w = f x w"
  by (simp add: bindS_def liftE_def)

lemma bindS_liftE_Inl [simp]: "bindS (liftE (Inl e)) f w = (Inl e, w)"
  by (simp add: bindS_def liftE_def)

lemma bindS_effect [simp]: "bindS (effect g) f w = f () (g w)"
  by (simp add: bindS_def effect_def)

lemma bindS_assoc: "bindS (bindS m f) g = bindS m (\<lambda>x. bindS (f x) g)"
  by (auto simp: bindS_def fun_eq_iff split: prod.splits sum.splits)

lemma bindS_ret_fun: "bindS (ret x) f = f x"
  by (rule ext) simp

subsection \<open>Reading a step\<close>

lemma read_step_truthy:
  assumes "read_step a s = Inr (Some (name, p))"
  shows "truthy s" and "truthy p"
proof -
  show s: "truthy s"
    using assms by (auto simp: read_step_def split: if_splits)
  from assms obtain sp where "p = or_else sp (JObj [])"
    by (auto simp: read_step_def bindE_def split: if_splits sum.splits)
  then show "truthy p"
    by (simp add: or_else_def)
qed

lemma get_prop_truthy:
  assumes "truthy p"
  shows "\<exists>v. get_prop p k = Inr v"
  using assms by (cases p) simp_all

text \<open>
  The coordinates of parameters that are not \<^verbatim>\<open>null\<close>: present when \<^verbatim>\<open>x\<close>, \<^verbatim>\<open>y\<close> and \<^verbatim>\<open>z\<close> are
  three numbers, absent otherwise; reading them does not throw.
\<close>

lemma number_coords_Some:
  "number_coords p = Inr (Some (x, y, z))
   \<longleftrightarrow> get_prop p ''x'' = Inr (JNum x) \<and> get_prop p ''y'' = Inr (JNum y) \<and> get_prop p ''z'' = Inr (JNum z)"
  by (auto simp: number_coords_def bindE_def split: sum.splits jsval.splits)

lemma number_coords_None:
  assumes "truthy p"
  shows "number_coords p = Inr None
   \<longleftrightarrow> \<not> (\<exists>x y z. get_prop p ''x'' = Inr (JNum x) \<and> get_prop p ''y'' = Inr (JNum y)
                  \<and> get_prop p ''z'' = Inr (JNum z))"
  using get_prop_truthy [OF assms, of "''x''"] get_prop_truthy [OF assms, of "''y''"]
    get_prop_truthy [OF assms, of "''z''"]
  by (auto simp: number_coords_def bindE_def split: sum.splits jsval.splits)

lemma number_coords_xyz [simp]:
  "number_coords (JObj [(''x'', JNum x), (''y'', JNum y), (''z'', JNum z)]) = Inr (Some (x, y, z))"
  by (simp add: number_coords_def bindE_def)

lemma read_step_step:
  assumes "n \<noteq> []"
  shows "read_step a (step n x y z)
     = Inr (Some (toLowerCase n, JObj [(''x'', JNum x), (''y'', JNum y), (''z'', JNum z)]))"
  using assms by (simp add: read_step_def step_def bindE_def or_else_def)

lemma read_step_reasoned:
  assumes "n \<noteq> []"
  shows "read_step a (reasoned_step n x y z why)
     = Inr (Some (toLowerCase n, JObj [(''x'', JNum x), (''y'', JNum y), (''z'', JNum z)]))"
  using assms by (simp add: read_step_def reasoned_step_def bindE_def or_else_def)

subsection \<open>One turn of the loop\<close>

lemma executePlan_step_nothing:
  assumes "read_step a s = Inr None"
  shows "executePlan_step a s w = (Inr (), w)"
  using assms by (simp add: executePlan_step_def ret_def)

lemma executePlan_step_throws:
  assumes "read_step a s = Inl e"
  shows "executePlan_step a s w = (Inl e, w)"
  using assms by (simp add: executePlan_step_def)

lemma executePlan_step_missing:
  assumes "read_step a s = Inr (Some (name, p))" and "number_coords p = Inr None"
  shows "executePlan_step a s w = (Inr (), try_chat a ''Skipping step: missing coordinates'' w)"
  using assms by (simp add: executePlan_step_def effect_def)

lemma executePlan_step_far:
  assumes "read_step a s = Inr (Some (name, p))" and "number_coords p = Inr (Some (x, y, z))"
    and "js_gt (distanceTo (position w) (Vec3 x y z)) (Fin 10)"
  shows "executePlan_step a s w
     = (Inr (), try_chat a (''Skipping out-of-range step at '' @ coords_text a x y z) w)"
  using assms by (simp add: executePlan_step_def effect_def)

lemma executePlan_step_unsupported:
  assumes "read_step a s = Inr (Some (name, p))" and "number_coords p = Inr (Some (x, y, z))"
    and "\<not> js_gt (distanceTo (position w) (Vec3 x y z)) (Fin 10)"
    and "name \<notin> set primitive_steps"
  shows "executePlan_step a s w
     = (Inr (), try_chat a (''Skipping unsupported step type: '' @ name) w)"
  using assms by (simp add: executePlan_step_def effect_def)

lemma executePlan_step_dispatch:
  assumes "read_step a s = Inr (Some (name, p))" and "number_coords p = Inr (Some (x, y, z))"
    and "\<not> js_gt (distanceTo (position w) (Vec3 x y z)) (Fin 10)"
    and "name \<in> set primitive_steps"
  shows "executePlan_step a s w
     = bindS (announce_rationale a s) (\<lambda>u.
       bindS (executeMicroAction a (JObj [(''name'', JStr name), (''params'', p)])) (\<lambda>res.
       effect (sleep 200))) w"
  using assms by (simp add: executePlan_step_def)

lemma executePlan_steps_append:
  "executePlan_steps a (xs @ ys) = bindS (executePlan_steps a xs) (\<lambda>u. executePlan_steps a ys)"
  by (induction xs) (simp_all add: bindS_assoc bindS_ret_fun)

lemma executePlan_append:
  "executePlan a (JArr (xs @ ys)) w =
     (case executePlan a (JArr xs) w of
        (Inl e, w') \<Rightarrow> (Inl e, w')
      | (Inr r, w') \<Rightarrow> executePlan a (JArr ys) w')"
  by (simp add: executePlan_def executePlan_steps_append bindS_def ret_def
      split: prod.splits sum.splits)

lemma executePlan_single:
  "executePlan a (JArr [s]) w =
     (case executePlan_step a s w of
        (Inl e, w') \<Rightarrow> (Inl e, w')
      | (Inr u, w') \<Rightarrow> (Inr True, w'))"
  by (simp add: executePlan_def bindS_def ret_def split: prod.splits sum.splits)

lemma executePlan_steps_Cons:
  "executePlan_steps a (s # rest) w =
     (case executePlan_step a s w of
        (Inl e, w') \<Rightarrow> (Inl e, w')
      | (Inr u, w') \<Rightarrow> executePlan_steps a rest w')"
  by (simp add: bindS_def)

subsection \<open>The micro actions of the steps of the examples\<close>

lemma toLowerCase_inspect: "toLowerCase ''inspect'' = ''inspect''"
  by (simp add: toLowerCase_def)

lemma toLowerCase_goto: "toLowerCase ''goto'' = ''goto''"
  by (simp add: toLowerCase_def)

lemma toLowerCase_dig: "toLowerCase ''dig'' = ''dig''"
  by (simp add: toLowerCase_def)

lemma executeMicroAction_inspect:
  "executeMicroAction a (step ''inspect'' x y z) w =
     (case blockAt a (Vec3 x y z) w of
        Inl e \<Rightarrow> (Inl e, w)
      | Inr b \<Rightarrow>
          (Inr (b \<noteq> None),
           try_chat a (''Inspect: ''
                       @ (case b of
                            None \<Rightarrow> ''unknown''
                          | Some blk \<Rightarrow> if bname blk = [] then ''unknown'' else bname blk)
                       @ '' at '' @ coords_text a x y z) w))"
  by (simp add: executeMicroAction_def step_def or_else_def call_toLowerCase_def toLowerCase_def
      inspect_text_def bindE_def effect_def ret_def Let_def split: sum.splits option.splits)

lemma executeMicroAction_goto:
  "executeMicroAction a (step ''goto'' x y z) w = gotoNear a (Vec3 x y z) 1 w"
  by (simp add: executeMicroAction_def step_def or_else_def call_toLowerCase_def toLowerCase_def Let_def)


text \<open>A step of the examples, with or without a rationale, whose coordinates are in range.\<close>

lemma step_in_range:
  assumes "n \<noteq> []" and "\<not> js_gt (distanceTo (position w) (Vec3 x y z)) (Fin 10)"
  shows "executePlan_step a (step n x y z) w =
     (if toLowerCase n \<notin> set primitive_steps then
        (Inr (), try_chat a (''Skipping unsupported step type: '' @ toLowerCase n) w)
      else bindS (executeMicroAction a (step (toLowerCase n) x y z)) (\<lambda>res. effect (sleep 200)) w)"
proof -
  have "announce_rationale a (step n x y z) = effect (\<lambda>w. w)"
    by (rule ext) (simp add: announce_rationale_def step_def effect_def)
  then show ?thesis
    using executePlan_step_unsupported [OF read_step_step [OF assms(1)] number_coords_xyz assms(2)]
      executePlan_step_dispatch [OF read_step_step [OF assms(1)] number_coords_xyz assms(2)]
    by (simp add: step_def)
qed

lemma reasoned_step_in_range:
  assumes "n \<noteq> []" and "\<not> js_gt (distanceTo (position w) (Vec3 x y z)) (Fin 10)"
    and "why \<noteq> []"
  shows "executePlan_step a (reasoned_step n x y z why) w =
     (if toLowerCase n \<notin> set primitive_steps then
        (Inr (), try_chat a (''Skipping unsupported step type: '' @ toLowerCase n) w)
      else bindS (executeMicroAction a (step (toLowerCase n) x y z)) (\<lambda>res. effect (sleep 200))
             (try_chat a (''Plan: '' @ why) w))"
proof -
  have "announce_rationale a (reasoned_step n x y z why) = effect (try_chat a (''Plan: '' @ why))"
    using assms(3) by (intro ext) (simp add: announce_rationale_def reasoned_step_def effect_def)
  then show ?thesis
    using executePlan_step_unsupported [OF read_step_reasoned [OF assms(1)] number_coords_xyz assms(2)]
      executePlan_step_dispatch [OF read_step_reasoned [OF assms(1)] number_coords_xyz assms(2)]
    by (simp add: step_def)
qed

lemma step_far:
  assumes "n \<noteq> []" and "js_gt (distanceTo (position w) (Vec3 x y z)) (Fin 10)"
  shows "executePlan_step a (step n x y z) w
     = (Inr (), try_chat a (''Skipping out-of-range step at '' @ coords_text a x y z) w)"
  by (rule executePlan_step_far [OF read_step_step [OF assms(1)] number_coords_xyz assms(2)])

text \<open>Distances from a position with natural coordinates to another.\<close>

lemmas distance_eval = distanceTo_def Vec3_def js_sub_def Let_def fl_0 fl_1 fl_numeral
  near_sqrt far_sqrt

lemma try_chat_frame [simp]:
  "position (try_chat a msg w) = position w" "sleeps (try_chat a msg w) = sleeps w"
  "busy (try_chat a msg w) = busy w" "currentTask (try_chat a msg w) = currentTask w"
  by (simp_all add: try_chat_def bot_chat_def)

subsection \<open>The two variables \<^verbatim>\<open>busy\<close> and \<^verbatim>\<open>currentTask\<close>\<close>













lemma same_flags [simp]: "w\<lparr>busy := busy w, currentTask := currentTask w\<rparr> = w"
  by simp





lemma blind_dig_block:
  assumes "blind a"
  shows "dig_block a blk (w\<lparr>busy := b, currentTask := t\<rparr>)
     = (fst (dig_block a blk w), (snd (dig_block a blk w))\<lparr>busy := b, currentTask := t\<rparr>)"
  using assms unfolding blind_def by blast


































lemma blind_planner: "blind planner"
  by (simp add: blind_def planner_def obedient_def)

subsection \<open>Distances of the examples\<close>

lemma origin_examples:
  assumes "position w = Vec3 (Fin 0) (Fin 0) (Fin 0)"
  shows "js_gt (distanceTo (position w) (Vec3 (Fin 20) (Fin 0) (Fin 0))) (Fin 10)"
    and "\<not> js_gt (distanceTo (position w) (Vec3 (Fin 5) (Fin 0) (Fin 5))) (Fin 10)"
  using assms by (simp_all add: distance_eval)

text \<open>
  A target a hair beyond ten blocks: the square of the small coordinate is lost when it is
  added to 100, and the distance the program computes is 10.
\<close>

lemma a_hair_beyond:
  assumes "position w = Vec3 (Fin 0) (Fin 0) (Fin 0)" and "fl y = Fin y" and "\<bar>y\<bar> \<le> 1 / 2 ^ 24"
  shows "distanceTo (position w) (Vec3 (Fin 10) (Fin y) (Fin 0)) = Fin 10"
proof -
  from fl_small_square [OF assms(3)] obtain t where
    t: "fl (y * y) = Fin t" "0 \<le> t" "t * 2 ^ 46 \<le> 1 / 4"
    by blast
  have "sqrt 100 = 10" using real_sqrt_abs2 [of 10] by simp
  then show ?thesis
    using assms(1,2) t by (simp add: distance_eval hundred_and_a_bit)
qed

subsection \<open>Plans of inspect steps\<close>

lemma inspect_plan_runs:
  assumes "\<forall>(x, y, z)\<in>set cs. \<not> js_gt (distanceTo (position w) (Vec3 x y z)) (Fin 10)"
    and "\<forall>msg w'. \<not> chat_throws a msg w'"
    and "\<forall>v w'. blockAt a v w' = Inr (Some (blk v))"
    and "\<forall>v. bname (blk v) \<noteq> []"
  shows "executePlan_steps a (map (\<lambda>(x, y, z). step ''inspect'' x y z) cs) w
     = (Inr (), w\<lparr>chat_out := chat_out w
                      @ map (\<lambda>(x, y, z). ''Inspect: '' @ bname (blk (Vec3 x y z)) @ '' at ''
                                          @ coords_text a x y z) cs,
                   sleeps := sleeps w @ replicate (length cs) 200\<rparr>)"
  using assms(1)
proof (induction cs arbitrary: w)
  case Nil
  then show ?case by (simp add: ret_def)
next
  case (Cons c cs)
  obtain x y z where c: "c = (x, y, z)" by (cases c) auto
  from Cons.prems c have near: "\<not> js_gt (distanceTo (position w) (Vec3 x y z)) (Fin 10)"
    by simp
  define w1 where "w1 = w\<lparr>chat_out := chat_out w @ [''Inspect: '' @ bname (blk (Vec3 x y z)) @ '' at ''
                                                  @ coords_text a x y z],
                         sleeps := sleeps w @ [200]\<rparr>"
  have one: "executePlan_step a (step ''inspect'' x y z) w = (Inr (), w1)"
    using assms(2-4)
    by (simp add: step_in_range [OF _ near] toLowerCase_inspect primitive_steps_def
        executeMicroAction_inspect try_chat_def bot_chat_def bindS_def effect_def sleep_def w1_def)
  have "position w1 = position w" by (simp add: w1_def)
  with Cons.prems have "\<forall>(x, y, z)\<in>set cs. \<not> js_gt (distanceTo (position w1) (Vec3 x y z)) (Fin 10)"
    by simp
  from Cons.IH [OF this] show ?case
    by (simp add: c one bindS_def w1_def replicate_append_same)
qed

text \<open>
  C3 (as amended). \<^verbatim>\<open>executePlan\<close> applies no cap, whatever the length of the plan:
  \<^item> a plan is executed as its first steps, however many, followed by its other steps from the
    world the first ones have left, unless one of the first has thrown, which ends the plan;
  \<^item> a plan of one step is one turn of the loop;
  \<^item> a turn does nothing with a step that is missing or has no name, and throws, which ends
    the plan, when the name of the step cannot be converted to a string;
  \<^item> a turn dispatches a step that is valid (coordinates that are numbers, within range, a
    primitive name), whatever other keys the step has: its rationale is announced, the micro
    action awaited, 200 ms slept;
  \<^item> so every step of a plan of inspect steps within range is dispatched: with a chat and a
    \<^verbatim>\<open>bot.blockAt\<close> that do not throw, the world is left with one inspect message and one delay
    for each step, in the order of the plan.
\<close>

theorem no_step_cap:
  "executePlan a (JArr (xs @ ys)) w =
     (case executePlan a (JArr xs) w of
        (Inl e, w') \<Rightarrow> (Inl e, w')
      | (Inr r, w') \<Rightarrow> executePlan a (JArr ys) w')
   \<and> executePlan a (JArr [s]) w =
     (case executePlan_step a s w of
        (Inl e, w') \<Rightarrow> (Inl e, w')
      | (Inr u, w') \<Rightarrow> (Inr True, w'))
   \<and> (read_step a s = Inr None \<longrightarrow> executePlan_step a s w = (Inr (), w))
   \<and> (read_step a s = Inl e \<longrightarrow> executePlan a (JArr (s # rest)) w = (Inl e, w))
   \<and> (read_step a s = Inr (Some (name, p)) \<and> number_coords p = Inr (Some (x, y, z))
        \<and> \<not> js_gt (distanceTo (position w) (Vec3 x y z)) (Fin 10) \<and> name \<in> set primitive_steps \<longrightarrow>
        executePlan_step a s w =
          bindS (announce_rationale a s) (\<lambda>u.
          bindS (executeMicroAction a (JObj [(''name'', JStr name), (''params'', p)])) (\<lambda>res.
          effect (sleep 200))) w)
   \<and> ((\<forall>(x, y, z)\<in>set cs. \<not> js_gt (distanceTo (position w) (Vec3 x y z)) (Fin 10))
        \<and> (\<forall>msg w'. \<not> chat_throws a msg w') \<and> (\<forall>v w'. blockAt a v w' = Inr (Some (blk v)))
        \<and> (\<forall>v. bname (blk v) \<noteq> []) \<longrightarrow>
        executePlan a (JArr (map (\<lambda>(x, y, z). step ''inspect'' x y z) cs)) w
          = (Inr True,
             w\<lparr>chat_out := chat_out w
                   @ map (\<lambda>(x, y, z). ''Inspect: '' @ bname (blk (Vec3 x y z)) @ '' at ''
                                       @ coords_text a x y z) cs,
               sleeps := sleeps w @ replicate (length cs) 200\<rparr>))"
proof (intro conjI impI)
  show "executePlan a (JArr (xs @ ys)) w =
     (case executePlan a (JArr xs) w of
        (Inl e, w') \<Rightarrow> (Inl e, w')
      | (Inr r, w') \<Rightarrow> executePlan a (JArr ys) w')"
    by (rule executePlan_append)
  show "executePlan a (JArr [s]) w =
     (case executePlan_step a s w of
        (Inl e, w') \<Rightarrow> (Inl e, w')
      | (Inr u, w') \<Rightarrow> (Inr True, w'))"
    by (rule executePlan_single)
next
  assume "read_step a s = Inr None"
  then show "executePlan_step a s w = (Inr (), w)"
    by (rule executePlan_step_nothing)
next
  assume "read_step a s = Inl e"
  from executePlan_step_throws [OF this]
  show "executePlan a (JArr (s # rest)) w = (Inl e, w)"
    by (simp add: executePlan_def bindS_def)
next
  assume "read_step a s = Inr (Some (name, p)) \<and> number_coords p = Inr (Some (x, y, z))
        \<and> \<not> js_gt (distanceTo (position w) (Vec3 x y z)) (Fin 10) \<and> name \<in> set primitive_steps"
  then show "executePlan_step a s w =
          bindS (announce_rationale a s) (\<lambda>u.
          bindS (executeMicroAction a (JObj [(''name'', JStr name), (''params'', p)])) (\<lambda>res.
          effect (sleep 200))) w"
    using executePlan_step_dispatch by blast
next
  assume "(\<forall>(x, y, z)\<in>set cs. \<not> js_gt (distanceTo (position w) (Vec3 x y z)) (Fin 10))
        \<and> (\<forall>msg w'. \<not> chat_throws a msg w') \<and> (\<forall>v w'. blockAt a v w' = Inr (Some (blk v)))
        \<and> (\<forall>v. bname (blk v) \<noteq> [])"
  then have "executePlan_steps a (map (\<lambda>(x, y, z). step ''inspect'' x y z) cs) w
     = (Inr (), w\<lparr>chat_out := chat_out w
                      @ map (\<lambda>(x, y, z). ''Inspect: '' @ bname (blk (Vec3 x y z)) @ '' at ''
                                          @ coords_text a x y z) cs,
                   sleeps := sleeps w @ replicate (length cs) 200\<rparr>)"
    using inspect_plan_runs [of cs w a blk] by blast
  then show "executePlan a (JArr (map (\<lambda>(x, y, z). step ''inspect'' x y z) cs)) w
          = (Inr True,
             w\<lparr>chat_out := chat_out w
                   @ map (\<lambda>(x, y, z). ''Inspect: '' @ bname (blk (Vec3 x y z)) @ '' at ''
                                       @ coords_text a x y z) cs,
               sleeps := sleeps w @ replicate (length cs) 200\<rparr>)"
    by (simp add: executePlan_def bindS_def ret_def)
qed

lemma obedient_inspects:
  "\<forall>msg w'. \<not> chat_throws obedient msg w'"
  "\<forall>v w'. blockAt obedient v w' = Inr (Some \<lparr>bname = ''stone'', bposition = v\<rparr>)"
  "\<forall>v. bname \<lparr>bname = ''stone'', bposition = v\<rparr> \<noteq> []"
  by (simp_all add: obedient_def)

lemma near_123:
  "\<forall>(x, y, z)\<in>set (replicate n (Fin 1, Fin 2, Fin 3)).
     \<not> js_gt (distanceTo (position at_origin) (Vec3 x y z)) (Fin 10)"
  by (simp add: at_origin_def distance_eval)

theorem no_step_cap_witness:
  "executePlan obedient (JArr (replicate 12 (step ''inspect'' (Fin 1) (Fin 2) (Fin 3)))) at_origin
     = (Inr True, at_origin\<lparr>chat_out := replicate 12 ''Inspect: stone at 1,2,3'',
                           sleeps := replicate 12 200\<rparr>)
   \<and> executePlan_step obedient (reasoned_step ''Goto'' (Fin 3) (Fin 0) (Fin 4) ''nearer'') at_origin
     = (Inr (), at_origin\<lparr>position := Vec3 (Fin 3) (Fin 0) (Fin 4), chat_out := [''Plan: nearer''],
                         sleeps := [200]\<rparr>)
   \<and> executePlan obedient
        (JArr [JObj [(''name'', JObj [(''toString'', JNum (Fin 1))])],
               step ''inspect'' (Fin 1) (Fin 2) (Fin 3)]) at_origin
     = (Inl TypeError, at_origin)
   \<and> executePlan_step obedient (JObj [(''params'', JObj [])]) at_origin = (Inr (), at_origin)"
proof -
  have thrown: "read_step obedient (JObj [(''name'', JObj [(''toString'', JNum (Fin 1))])]) = Inl TypeError"
    by (simp add: read_step_def bindE_def)
  have unnamed: "read_step obedient (JObj [(''params'', JObj [])]) = Inr None"
    by (simp add: read_step_def bindE_def)
  from no_step_cap [where a = obedient and w = at_origin and e = TypeError
      and s = "JObj [(''name'', JObj [(''toString'', JNum (Fin 1))])]"
      and rest = "[step ''inspect'' (Fin 1) (Fin 2) (Fin 3)]"] thrown
  have throws: "executePlan obedient
        (JArr [JObj [(''name'', JObj [(''toString'', JNum (Fin 1))])],
               step ''inspect'' (Fin 1) (Fin 2) (Fin 3)]) at_origin
     = (Inl TypeError, at_origin)"
    by blast
  from no_step_cap [where a = obedient and w = at_origin and s = "JObj [(''params'', JObj [])]"]
    unnamed
  have unread: "executePlan_step obedient (JObj [(''params'', JObj [])]) at_origin = (Inr (), at_origin)"
    by blast
  have near: "\<not> js_gt (distanceTo (position at_origin) (Vec3 (Fin 3) (Fin 0) (Fin 4))) (Fin 10)"
    by (simp add: at_origin_def distance_eval)
  have name: "''goto'' \<in> set primitive_steps"
    by (simp add: primitive_steps_def)
  have read: "read_step obedient (reasoned_step ''Goto'' (Fin 3) (Fin 0) (Fin 4) ''nearer'')
     = Inr (Some (''goto'', JObj [(''x'', JNum (Fin 3)), (''y'', JNum (Fin 0)), (''z'', JNum (Fin 4))]))"
    by (simp add: read_step_reasoned toLowerCase_def)
  note cap = no_step_cap [where a = obedient and w = at_origin
      and cs = "replicate 12 (Fin 1, Fin 2, Fin 3)"
      and blk = "\<lambda>v. \<lparr>bname = ''stone'', bposition = v\<rparr>"
      and s = "reasoned_step ''Goto'' (Fin 3) (Fin 0) (Fin 4) ''nearer''" and name = "''goto''"
      and p = "JObj [(''x'', JNum (Fin 3)), (''y'', JNum (Fin 0)), (''z'', JNum (Fin 4))]"
      and x = "Fin 3" and y = "Fin 0" and z = "Fin 4" and xs = "[]" and ys = "[]"]
  from cap near_123 [of 12] obedient_inspects
  have "executePlan obedient
          (JArr (map (\<lambda>(x, y, z). step ''inspect'' x y z) (replicate 12 (Fin 1, Fin 2, Fin 3)))) at_origin
     = (Inr True,
        at_origin\<lparr>chat_out := chat_out at_origin
              @ map (\<lambda>(x, y, z). ''Inspect: '' @ bname \<lparr>bname = ''stone'', bposition = Vec3 x y z\<rparr>
                                  @ '' at '' @ coords_text obedient x y z)
                  (replicate 12 (Fin 1, Fin 2, Fin 3)),
          sleeps := sleeps at_origin @ replicate (length (replicate 12 (Fin 1, Fin 2, Fin 3))) 200\<rparr>)"
    by blast
  then have plan: "executePlan obedient (JArr (replicate 12 (step ''inspect'' (Fin 1) (Fin 2) (Fin 3)))) at_origin
     = (Inr True, at_origin\<lparr>chat_out := replicate 12 ''Inspect: stone at 1,2,3'',
                           sleeps := replicate 12 200\<rparr>)"
    by (simp add: at_origin_def coords_text_def obedient_def show_nat.simps)
  from cap read number_coords_xyz near name
  have "executePlan_step obedient (reasoned_step ''Goto'' (Fin 3) (Fin 0) (Fin 4) ''nearer'') at_origin
     = bindS (announce_rationale obedient (reasoned_step ''Goto'' (Fin 3) (Fin 0) (Fin 4) ''nearer''))
         (\<lambda>u. bindS (executeMicroAction obedient
                        (JObj [(''name'', JStr ''goto''),
                               (''params'', JObj [(''x'', JNum (Fin 3)), (''y'', JNum (Fin 0)),
                                                 (''z'', JNum (Fin 4))])]))
           (\<lambda>res. effect (sleep 200))) at_origin"
    by blast
  then have goes: "executePlan_step obedient (reasoned_step ''Goto'' (Fin 3) (Fin 0) (Fin 4) ''nearer'') at_origin
     = (Inr (), at_origin\<lparr>position := Vec3 (Fin 3) (Fin 0) (Fin 4), chat_out := [''Plan: nearer''],
                         sleeps := [200]\<rparr>)"
    by (simp add: announce_rationale_def reasoned_step_def executeMicroAction_goto [unfolded step_def]
        obedient_def at_origin_def try_chat_def bot_chat_def effect_def sleep_def bindS_def liftE_def)
  from plan goes throws unread show ?thesis
    by (intro conjI)
qed

theorem eleven_steps_counterexample:
  "sleeps (snd (executePlan obedient (JArr (replicate 11 (step ''inspect'' (Fin 1) (Fin 2) (Fin 3))))
                  at_origin)) = replicate 11 200"
  using inspect_plan_runs [OF near_123 [of 11] obedient_inspects]
  by (simp add: executePlan_def bindS_def ret_def at_origin_def)

text \<open>
  C4 (as amended). Take any step from which the loop reads a name and parameters (the name is
  the lower-cased string of \<^verbatim>\<open>s.name\<close>), whose coordinates are three numbers within range;
  the step may have a rationale and any other key. It is skipped with the notice
  \<^verbatim>\<open>Skipping unsupported step type: name\<close> when its name is none of \<^verbatim>\<open>inspect\<close>, \<^verbatim>\<open>goto\<close>,
  \<^verbatim>\<open>dig\<close>, \<^verbatim>\<open>mine\<close> (so the compound helpers and the command names are skipped too), and the
  rest of the plan runs from the world that holds the notice; otherwise it is dispatched.
\<close>

theorem unsupported_step_type:
  assumes "read_step a s = Inr (Some (name, p))"
    and "number_coords p = Inr (Some (x, y, z))"
    and "\<not> js_gt (distanceTo (position w) (Vec3 x y z)) (Fin 10)"
  shows "(\<exists>sn str. get_prop s ''name'' = Inr sn \<and> truthy sn \<and> ToString (num_str a) sn = Inr str
            \<and> name = toLowerCase str)
       \<and> set primitive_steps = {''inspect'', ''goto'', ''dig'', ''mine''}
       \<and> (name \<notin> set primitive_steps \<longrightarrow>
            executePlan_step a s w =
              (Inr (), try_chat a (''Skipping unsupported step type: '' @ name) w)
          \<and> executePlan_steps a (s # rest) w =
              executePlan_steps a rest (try_chat a (''Skipping unsupported step type: '' @ name) w))
       \<and> (name \<in> set primitive_steps \<longrightarrow>
            executePlan_step a s w =
              bindS (announce_rationale a s) (\<lambda>u.
              bindS (executeMicroAction a (JObj [(''name'', JStr name), (''params'', p)])) (\<lambda>res.
              effect (sleep 200))) w)"
proof (intro conjI impI)
  show "\<exists>sn str. get_prop s ''name'' = Inr sn \<and> truthy sn \<and> ToString (num_str a) sn = Inr str
            \<and> name = toLowerCase str"
    using assms(1) by (auto simp: read_step_def bindE_def split: if_splits sum.splits)
  show "set primitive_steps = {''inspect'', ''goto'', ''dig'', ''mine''}"
    by (simp add: primitive_steps_def)
next
  assume "name \<notin> set primitive_steps"
  from executePlan_step_unsupported [OF assms this]
  show skip: "executePlan_step a s w =
              (Inr (), try_chat a (''Skipping unsupported step type: '' @ name) w)" .
  then show "executePlan_steps a (s # rest) w =
              executePlan_steps a rest (try_chat a (''Skipping unsupported step type: '' @ name) w)"
    by (simp add: bindS_def)
next
  assume "name \<in> set primitive_steps"
  from executePlan_step_dispatch [OF assms this]
  show "executePlan_step a s w =
              bindS (announce_rationale a s) (\<lambda>u.
              bindS (executeMicroAction a (JObj [(''name'', JStr name), (''params'', p)])) (\<lambda>res.
              effect (sleep 200))) w" .
qed

text \<open>
  Five steps: one with a rationale and an unknown name, a compound helper, a command, a name
  with an accented capital (code 201, lower case 233), and an inspect with a rationale.
\<close>

lemmas run_eval = step_in_range reasoned_step_in_range step_far toLowerCase_def primitive_steps_def
  executeMicroAction_inspect executeMicroAction_goto bindS_def try_chat_def bot_chat_def
  coords_text_def show_nat.simps effect_def sleep_def ret_def

theorem unsupported_step_type_witness:
  "executePlan_steps obedient
     [reasoned_step ''flyaway'' (Fin 1) (Fin 1) (Fin 1) ''escape'',
      step ''GotoPlayer'' (Fin 1) (Fin 1) (Fin 1),
      step ''command'' (Fin 1) (Fin 1) (Fin 1),
      step [CHR 0xC9] (Fin 1) (Fin 1) (Fin 1),
      reasoned_step ''Inspect'' (Fin 1) (Fin 1) (Fin 1) ''look''] at_origin
   = (Inr (), at_origin\<lparr>chat_out := [''Skipping unsupported step type: flyaway'',
         ''Skipping unsupported step type: gotoplayer'', ''Skipping unsupported step type: command'',
         ''Skipping unsupported step type: '' @ [CHR 0xE9], ''Plan: look'',
         ''Inspect: stone at 1,1,1''], sleeps := [200]\<rparr>)"
  using unsupported_step_type [where a = obedient and w = at_origin
      and s = "reasoned_step ''flyaway'' (Fin 1) (Fin 1) (Fin 1) ''escape''" and name = "''flyaway''"
      and p = "JObj [(''x'', JNum (Fin 1)), (''y'', JNum (Fin 1)), (''z'', JNum (Fin 1))]"
      and x = "Fin 1" and y = "Fin 1" and z = "Fin 1"
      and rest = "[step ''GotoPlayer'' (Fin 1) (Fin 1) (Fin 1), step ''command'' (Fin 1) (Fin 1) (Fin 1),
                   step [CHR 0xC9] (Fin 1) (Fin 1) (Fin 1),
                   reasoned_step ''Inspect'' (Fin 1) (Fin 1) (Fin 1) ''look'']"]
  by (simp add: read_step_reasoned run_eval at_origin_def distance_eval obedient_def)

theorem status_step_counterexample:
  "executePlan_step obedient (step ''status'' (Fin 0) (Fin 0) (Fin 0)) at_origin
     = (Inr (), at_origin\<lparr>chat_out := [''Skipping unsupported step type: status'']\<rparr>)"
  by (simp add: run_eval at_origin_def distance_eval obedient_def)

text \<open>
  C5 (as amended). Take any step from which the loop reads a name and parameters, primitive
  or not, with or without other keys:
  \<^item> the coordinates are missing unless \<^verbatim>\<open>x\<close>, \<^verbatim>\<open>y\<close> and \<^verbatim>\<open>z\<close> of the parameters all have type
    number (which the infinities and NaN have too), and then the step is skipped with
    \<^verbatim>\<open>Skipping step: missing coordinates\<close>;
  \<^item> with three numbers, the step is skipped with \<^verbatim>\<open>Skipping out-of-range step at x,y,z\<close> when
    the distance the program computes, in double arithmetic, from the bot's position in the
    world in which this step starts is greater than 10; otherwise the name is looked at;
  \<^item> each step starts in the world the step before it has left;
  \<^item> from the origin the computed distance to (20,0,0) is greater than 10 and that to (5,0,5)
    is not; nor is that to (10,y,0) for a double \<open>y\<close> up to \<open>2 ^ - 24\<close> in size, which is 10: a
    target farther than ten blocks by less than the rounding is in range.
\<close>

theorem coordinate_checks:
  assumes "read_step a s = Inr (Some (name, p))"
  shows "(number_coords p = Inr None
           \<longleftrightarrow> \<not> (\<exists>x y z. get_prop p ''x'' = Inr (JNum x) \<and> get_prop p ''y'' = Inr (JNum y)
                          \<and> get_prop p ''z'' = Inr (JNum z)))
       \<and> (number_coords p = Inr None \<longrightarrow>
           executePlan_step a s w = (Inr (), try_chat a ''Skipping step: missing coordinates'' w))
       \<and> (get_prop p ''x'' = Inr (JNum x) \<and> get_prop p ''y'' = Inr (JNum y)
            \<and> get_prop p ''z'' = Inr (JNum z) \<longrightarrow>
           executePlan_step a s w =
             (if js_gt (distanceTo (position w) (Vec3 x y z)) (Fin 10) then
                (Inr (), try_chat a (''Skipping out-of-range step at '' @ coords_text a x y z) w)
              else if name \<notin> set primitive_steps then
                (Inr (), try_chat a (''Skipping unsupported step type: '' @ name) w)
              else
                bindS (announce_rationale a s) (\<lambda>u.
                bindS (executeMicroAction a (JObj [(''name'', JStr name), (''params'', p)])) (\<lambda>res.
                effect (sleep 200))) w))
       \<and> executePlan_steps a (s # rest) w =
           (case executePlan_step a s w of
              (Inl e, w') \<Rightarrow> (Inl e, w')
            | (Inr u, w') \<Rightarrow> executePlan_steps a rest w')
       \<and> (position w = Vec3 (Fin 0) (Fin 0) (Fin 0) \<longrightarrow>
           js_gt (distanceTo (position w) (Vec3 (Fin 20) (Fin 0) (Fin 0))) (Fin 10)
           \<and> \<not> js_gt (distanceTo (position w) (Vec3 (Fin 5) (Fin 0) (Fin 5))) (Fin 10)
           \<and> (fl t = Fin t \<and> \<bar>t\<bar> \<le> 1 / 2 ^ 24 \<longrightarrow>
                distanceTo (position w) (Vec3 (Fin 10) (Fin t) (Fin 0)) = Fin 10))"
proof (intro conjI impI)
  show "number_coords p = Inr None
           \<longleftrightarrow> \<not> (\<exists>x y z. get_prop p ''x'' = Inr (JNum x) \<and> get_prop p ''y'' = Inr (JNum y)
                          \<and> get_prop p ''z'' = Inr (JNum z))"
    by (rule number_coords_None [OF read_step_truthy(2) [OF assms]])
  show "executePlan_steps a (s # rest) w =
           (case executePlan_step a s w of
              (Inl e, w') \<Rightarrow> (Inl e, w')
            | (Inr u, w') \<Rightarrow> executePlan_steps a rest w')"
    by (rule executePlan_steps_Cons)
next
  assume "number_coords p = Inr None"
  from executePlan_step_missing [OF assms this]
  show "executePlan_step a s w = (Inr (), try_chat a ''Skipping step: missing coordinates'' w)" .
next
  assume "get_prop p ''x'' = Inr (JNum x) \<and> get_prop p ''y'' = Inr (JNum y)
            \<and> get_prop p ''z'' = Inr (JNum z)"
  then have c: "number_coords p = Inr (Some (x, y, z))"
    by (simp only: number_coords_Some)
  show "executePlan_step a s w =
             (if js_gt (distanceTo (position w) (Vec3 x y z)) (Fin 10) then
                (Inr (), try_chat a (''Skipping out-of-range step at '' @ coords_text a x y z) w)
              else if name \<notin> set primitive_steps then
                (Inr (), try_chat a (''Skipping unsupported step type: '' @ name) w)
              else
                bindS (announce_rationale a s) (\<lambda>u.
                bindS (executeMicroAction a (JObj [(''name'', JStr name), (''params'', p)])) (\<lambda>res.
                effect (sleep 200))) w)"
    using executePlan_step_far [OF assms c] executePlan_step_unsupported [OF assms c]
      executePlan_step_dispatch [OF assms c]
    by simp
next
  assume "position w = Vec3 (Fin 0) (Fin 0) (Fin 0)"
  then show "js_gt (distanceTo (position w) (Vec3 (Fin 20) (Fin 0) (Fin 0))) (Fin 10)"
    and "\<not> js_gt (distanceTo (position w) (Vec3 (Fin 5) (Fin 0) (Fin 5))) (Fin 10)"
    by (rule origin_examples)+
next
  assume "position w = Vec3 (Fin 0) (Fin 0) (Fin 0)" and "fl t = Fin t \<and> \<bar>t\<bar> \<le> 1 / 2 ^ 24"
  then show "distanceTo (position w) (Vec3 (Fin 10) (Fin t) (Fin 0)) = Fin 10"
    using a_hair_beyond by blast
qed

text \<open>
  Two goto steps of 8 blocks each, from the origin: the second target is 16 blocks from where
  the plan started and 8 from where the first step has taken the bot, and it is dispatched.
  A dig step with a rationale and without \<^verbatim>\<open>z\<close> is skipped for its coordinates, and so is a
  step without parameters.
\<close>

theorem coordinate_checks_witness:
  "executePlan_steps obedient
     [step ''goto'' (Fin 8) (Fin 0) (Fin 0), reasoned_step ''goto'' (Fin 16) (Fin 0) (Fin 0) ''on'',
      JObj [(''name'', JStr ''dig''), (''rationale'', JStr ''ore''),
            (''params'', JObj [(''x'', JNum (Fin 1)), (''y'', JNum (Fin 2))])],
      JObj [(''name'', JStr ''inspect'')],
      step ''goto'' (Fin 36) (Fin 0) (Fin 0)]
     at_origin
   = (Inr (), at_origin\<lparr>position := Vec3 (Fin 16) (Fin 0) (Fin 0),
        chat_out := [''Plan: on'', ''Skipping step: missing coordinates'',
                     ''Skipping step: missing coordinates'', ''Skipping out-of-range step at 36,0,0''],
        sleeps := [200, 200]\<rparr>)
   \<and> distanceTo (Vec3 (Fin 0) (Fin 0) (Fin 0)) (Vec3 (Fin 10) (Fin (1 / 2 ^ 30)) (Fin 0)) = Fin 10"
proof -
  let ?dig = "JObj [(''name'', JStr ''dig''), (''rationale'', JStr ''ore''),
                    (''params'', JObj [(''x'', JNum (Fin 1)), (''y'', JNum (Fin 2))])]"
  let ?p = "JObj [(''x'', JNum (Fin 1)), (''y'', JNum (Fin 2))]"
  have read: "read_step obedient ?dig = Inr (Some (''dig'', ?p))"
    by (simp add: read_step_def bindE_def or_else_def toLowerCase_def)
  have none: "number_coords ?p = Inr None"
    by (simp add: number_coords_def bindE_def)
  have bare: "read_step obedient (JObj [(''name'', JStr ''inspect'')]) = Inr (Some (''inspect'', JObj []))"
    by (simp add: read_step_def bindE_def or_else_def toLowerCase_def)
  have none': "number_coords (JObj []) = Inr None"
    by (simp add: number_coords_def bindE_def)
  have small: "fl (1 / 2 ^ 30) = Fin (1 / 2 ^ 30)" "\<bar>1 / 2 ^ 30 :: real\<bar> \<le> 1 / 2 ^ 24"
    using fl_pow2_neg [of 30] by simp_all
  note checks = coordinate_checks [where a = obedient and s = ?dig and name = "''dig''" and p = ?p,
      OF read]
  from checks [where w = "at_origin\<lparr>position := Vec3 (Fin 16) (Fin 0) (Fin 0), chat_out := [''Plan: on''],
                                    sleeps := [200, 200]\<rparr>"] none
  have dig: "executePlan_step obedient ?dig
               (at_origin\<lparr>position := Vec3 (Fin 16) (Fin 0) (Fin 0), chat_out := [''Plan: on''],
                           sleeps := [200, 200]\<rparr>)
     = (Inr (), try_chat obedient ''Skipping step: missing coordinates''
                  (at_origin\<lparr>position := Vec3 (Fin 16) (Fin 0) (Fin 0), chat_out := [''Plan: on''],
                              sleeps := [200, 200]\<rparr>))"
    by blast
  from checks [where w = at_origin and t = "1 / 2 ^ 30"] small
  have hair: "distanceTo (position at_origin) (Vec3 (Fin 10) (Fin (1 / 2 ^ 30)) (Fin 0)) = Fin 10"
    by (simp add: at_origin_def)
  have "executePlan_steps obedient
     [step ''goto'' (Fin 8) (Fin 0) (Fin 0), reasoned_step ''goto'' (Fin 16) (Fin 0) (Fin 0) ''on'',
      ?dig, JObj [(''name'', JStr ''inspect'')], step ''goto'' (Fin 36) (Fin 0) (Fin 0)]
     at_origin
   = (Inr (), at_origin\<lparr>position := Vec3 (Fin 16) (Fin 0) (Fin 0),
        chat_out := [''Plan: on'', ''Skipping step: missing coordinates'',
                     ''Skipping step: missing coordinates'', ''Skipping out-of-range step at 36,0,0''],
        sleeps := [200, 200]\<rparr>)"
    using dig executePlan_step_missing [OF bare none']
    by (simp add: run_eval at_origin_def distance_eval obedient_def)
  with hair show ?thesis
    by (simp add: at_origin_def)
qed

text \<open>
  An infinite coordinate, as \<^verbatim>\<open>JSON.parse\<close> makes of \<^verbatim>\<open>1e309\<close>, has type number: the step is
  not skipped for missing coordinates but for its distance.
\<close>

lemma JSON_parse_overflow: "JSON_parse ''1e309'' = Inr (JNum PosInf)"
proof -
  have "fl (1 * 10 ^ 309) = PosInf"
    by (rule fl_overflow) simp
  then show ?thesis
    by (simp add: JSON_parse_def lex_def lex_idle_def json_space_def punct_def flush_word_def
      json_number_def unsigned_decimal_def exponent_part_def is_digit_def decimal_def
      digits_val_def digit_val_def Let_def)
qed

theorem infinite_coordinate_counterexample:
  "executePlan_step obedient (step ''goto'' PosInf (Fin 0) (Fin 0)) at_origin
     = (Inr (), at_origin\<lparr>chat_out := [''Skipping out-of-range step at Infinity,0,0'']\<rparr>)"
  by (simp add: run_eval at_origin_def distance_eval obedient_def)

subsection \<open>The planner tick and the two variables\<close>






text \<open>
  C2. A plan of two steps, with a pathfinder that throws on the first: the exception leaves
  \<^verbatim>\<open>executePlan\<close>, which returns no value; the second step is not attempted (nothing is said in
  chat) and no delay is slept.
\<close>

theorem executePlan_dispatch_throws:
  "executePlan stuck (JArr [step ''goto'' (Fin 1) (Fin 0) (Fin 0), step ''inspect'' (Fin 2) (Fin 0) (Fin 0)])
     at_origin = (Inl (Failure ''pathfinder''), at_origin)"
  by (simp add: executePlan_def run_eval at_origin_def distance_eval stuck_def obedient_def)

section \<open>Facts about the command gate\<close>

lemma startsWith_slash: "startsWith (CHR ''/'' # cs) ''/''"
  by (simp add: startsWith_def)

text \<open>
  The gate as a function of a configuration: with a non-empty command that the chat channel
  accepts, it succeeds exactly when \<^verbatim>\<open>ALLOW_COMMANDS\<close> or \<^verbatim>\<open>botIsOp\<close> holds, and refuses with a
  notice otherwise.
\<close>

lemma gate_of_a_configuration:
  assumes "cmd \<noteq> []"
    and "\<forall>msg. \<not> chat_throws a msg w"
  shows "(fst (tryExecuteCommand cfg a cmd w) \<longleftrightarrow> ALLOW_COMMANDS cfg \<or> botIsOp w)
    \<and> (\<not> ALLOW_COMMANDS cfg \<and> \<not> botIsOp w \<longrightarrow>
         tryExecuteCommand cfg a cmd w =
           (False, w\<lparr>chat_out := chat_out w @ [''Cannot run command: not allowed or not op'']\<rparr>))
    \<and> (ALLOW_COMMANDS cfg \<or> botIsOp w \<longrightarrow>
         tryExecuteCommand cfg a cmd w =
           (True, w\<lparr>chat_out := chat_out w @ [if startsWith cmd ''/'' then cmd else ''/'' @ cmd]\<rparr>))"
  using assms
  by (auto simp: tryExecuteCommand_def try_chat_def bot_chat_def Let_def)

text \<open>
  C6. The program never has the configuration in which the gate refuses. With the switch
  \<^verbatim>\<open>ALLOW_COMMANDS\<close> set to \<^verbatim>\<open>0\<close> in the environment and \<^verbatim>\<open>botIsOp\<close> false (commands disabled,
  not elevated), \<^verbatim>\<open>ALLOW_COMMANDS\<close> is true all the same, and the command is sent to the chat
  channel: no refusal, no notice. Had the configuration loaded from that environment the
  switch off, the same call would refuse the command with the notice.
\<close>

theorem command_gate_never_refuses:
  "\<not> botIsOp at_origin
   \<and> ALLOW_COMMANDS (load_config [''ALLOW_COMMANDS'' \<mapsto> ''0''])
   \<and> tryExecuteCommand (load_config [''ALLOW_COMMANDS'' \<mapsto> ''0'']) obedient ''time set day'' at_origin
       = (True, at_origin\<lparr>chat_out := [''/time set day'']\<rparr>)
   \<and> tryExecuteCommand ((load_config [''ALLOW_COMMANDS'' \<mapsto> ''0''])\<lparr>ALLOW_COMMANDS := False\<rparr>)
        obedient ''time set day'' at_origin
       = (False, at_origin\<lparr>chat_out := [''Cannot run command: not allowed or not op'']\<rparr>)"
  by (simp add: tryExecuteCommand_def load_config_def try_chat_def bot_chat_def obedient_def
      at_origin_def startsWith_def)

text \<open>
  C10. Whatever the environment, \<^verbatim>\<open>ALLOW_COMMANDS\<close> and \<^verbatim>\<open>ALLOW_DESTRUCTIVE\<close> are true, so the
  refusal branch of \<^verbatim>\<open>tryExecuteCommand\<close> is never taken: a non-empty command that the chat
  channel accepts is sent, with a slash put in front when it has none, and the result is true,
  operator or not.
\<close>

theorem commands_always_allowed:
  "ALLOW_COMMANDS (load_config env) \<and> ALLOW_DESTRUCTIVE (load_config env)
   \<and> (cmd \<noteq> [] \<and> \<not> chat_throws a (if startsWith cmd ''/'' then cmd else ''/'' @ cmd) w \<longrightarrow>
        tryExecuteCommand (load_config env) a cmd w =
          (True, w\<lparr>chat_out := chat_out w @ [if startsWith cmd ''/'' then cmd else ''/'' @ cmd]\<rparr>))"
  by (auto simp: tryExecuteCommand_def load_config_def bot_chat_def Let_def)

theorem commands_always_allowed_witness:
  "tryExecuteCommand (load_config [''ALLOW_COMMANDS'' \<mapsto> ''0'']) obedient ''gamemode creative'' at_origin
     = (True, at_origin\<lparr>chat_out := [''/gamemode creative'']\<rparr>)
   \<and> tryExecuteCommand (load_config Map.empty) obedient ''/kill'' at_origin
     = (True, at_origin\<lparr>chat_out := [''/kill'']\<rparr>)"
  using commands_always_allowed [where env = "[''ALLOW_COMMANDS'' \<mapsto> ''0'']"
      and cmd = "''gamemode creative''" and a = obedient and w = at_origin]
    commands_always_allowed [where env = Map.empty and cmd = "''/kill''" and a = obedient
      and w = at_origin]
  by (simp add: obedient_def at_origin_def startsWith_def)

end
